theory Spec2Isabelle
  imports Main "HOL-Library.Sublist"
begin

text \<open>
  The Google Meet tool gateway: the calendar client \<^verbatim>\<open>GoogleMeetAPI\<close> (session
  initialisation, the five meeting operations, the mapping of provider events to
  meetings) and the request handler \<^verbatim>\<open>GoogleMeetMcpServer.handleCallTool\<close>. The files,
  the clock, the OAuth2 endpoint and the calendar provider are parameters of the model;
  every operation on them is recorded, in order, beside the result of a call.
\<close>

section \<open>JavaScript values\<close>

text \<open>
  Tool arguments and the scalar fields of calendar events are JSON values. A property
  that is missing from an object reads as \<^verbatim>\<open>undefined\<close>; it is modelled by \<open>None\<close>
  of \<open>json option\<close>. Numbers are the integers (counts and millisecond timestamps).
\<close>

datatype json =
    JNull
  | JBool bool
  | JNum int
  | JStr string
  | JArr "json list"
  | JObj "(string \<times> json) list"

text \<open>JavaScript's ToBoolean: what \<^verbatim>\<open>if (v)\<close>, \<^verbatim>\<open>!v\<close> and \<^verbatim>\<open>v || d\<close> test.\<close>

fun truthy :: "json \<Rightarrow> bool" where
  "truthy JNull = False"
| "truthy (JBool b) = b"
| "truthy (JNum n) = (n \<noteq> 0)"
| "truthy (JStr s) = (s \<noteq> [])"
| "truthy (JArr xs) = True"
| "truthy (JObj kvs) = True"

fun truthy_opt :: "json option \<Rightarrow> bool" where
  "truthy_opt None = False"
| "truthy_opt (Some v) = truthy v"

text \<open>\<^verbatim>\<open>a || d\<close> with a default that is a value, and with one that may be undefined.\<close>

definition or_default :: "json option \<Rightarrow> json \<Rightarrow> json" where
  "or_default a d = (case a of None \<Rightarrow> d | Some v \<Rightarrow> if truthy v then v else d)"

definition js_or :: "json option \<Rightarrow> json option \<Rightarrow> json option" where
  "js_or a b = (if truthy_opt a then a else b)"

section \<open>Provider events and meetings\<close>

text \<open>
  The event resource of the calendar provider, with the properties the client reads or
  writes. Objects are records, optional objects are options, scalar properties are
  \<open>json option\<close>. \<open>ev_other\<close> stands for every property the client never touches.
\<close>

record entry_point =
  entryPointType :: "json option"
  uri :: "json option"

record create_request =
  requestId :: string

record conference_data =
  entryPoints :: "entry_point list option"
  createRequest :: "create_request option"

record event_attendee =
  ea_email :: "json option"
  ea_responseStatus :: "json option"

record event_time =
  dateTime :: "json option"
  date :: "json option"
  timeZone :: "json option"

record person =
  p_email :: "json option"

record event =
  ev_id :: "json option"
  ev_summary :: "json option"
  ev_description :: "json option"
  ev_start :: "event_time option"
  ev_end :: "event_time option"
  ev_attendees :: "event_attendee list option"
  ev_conferenceData :: "conference_data option"
  ev_creator :: "person option"
  ev_organizer :: "person option"
  ev_created :: "json option"
  ev_updated :: "json option"
  ev_other :: "(string \<times> json) list"

record meeting_attendee =
  email :: "json option"
  response_status :: "json option"

record meeting =
  mt_id :: "json option"
  mt_summary :: json
  mt_description :: json
  meet_link :: json
  start_time :: "json option"
  end_time :: "json option"
  mt_attendees :: "meeting_attendee list"
  mt_creator :: "json option"
  mt_organizer :: "json option"
  mt_created :: "json option"
  mt_updated :: "json option"

subsection \<open>\<^verbatim>\<open>_formatMeetingData\<close>\<close>

text \<open>
  The loop over the entry points: \<^verbatim>\<open>meetLink\<close> starts as \<^verbatim>\<open>null\<close>, the first entry
  point whose type is \<^verbatim>\<open>"video"\<close> assigns its \<^verbatim>\<open>uri\<close> (possibly undefined) and
  breaks.
\<close>

fun findMeetLink :: "entry_point list \<Rightarrow> json option" where
  "findMeetLink [] = Some JNull"
| "findMeetLink (ep # eps) =
     (if entryPointType ep = Some (JStr ''video'') then uri ep else findMeetLink eps)"

definition formatAttendee :: "event_attendee \<Rightarrow> meeting_attendee" where
  "formatAttendee a = \<lparr>email = ea_email a, response_status = ea_responseStatus a\<rparr>"

definition list_or_empty :: "'a list option \<Rightarrow> 'a list" where
  "list_or_empty xs = (case xs of None \<Rightarrow> [] | Some ys \<Rightarrow> ys)"

definition time_of :: "event_time option \<Rightarrow> json option" where
  "time_of t = (case t of None \<Rightarrow> None | Some st \<Rightarrow> js_or (dateTime st) (date st))"

definition email_of :: "person option \<Rightarrow> json option" where
  "email_of p = (case p of None \<Rightarrow> None | Some q \<Rightarrow> p_email q)"

definition formatMeetingData :: "event \<Rightarrow> meeting option" where
  "formatMeetingData ev =
     (case ev_conferenceData ev of
        None \<Rightarrow> None
      | Some cd \<Rightarrow>
          (case findMeetLink (list_or_empty (entryPoints cd)) of
             None \<Rightarrow> None
           | Some meetLink \<Rightarrow>
               if \<not> truthy meetLink then None
               else Some \<lparr>mt_id = ev_id ev,
                          mt_summary = or_default (ev_summary ev) (JStr ''''),
                          mt_description = or_default (ev_description ev) (JStr ''''),
                          meet_link = meetLink,
                          start_time = time_of (ev_start ev),
                          end_time = time_of (ev_end ev),
                          mt_attendees = map formatAttendee (list_or_empty (ev_attendees ev)),
                          mt_creator = email_of (ev_creator ev),
                          mt_organizer = email_of (ev_organizer ev),
                          mt_created = ev_created ev,
                          mt_updated = ev_updated ev\<rparr>))"

text \<open>The entry points of an event's conferencing data, and the spec's two conditions.\<close>

definition entry_points_of :: "event \<Rightarrow> entry_point list" where
  "entry_points_of ev =
     (case ev_conferenceData ev of None \<Rightarrow> [] | Some cd \<Rightarrow> list_or_empty (entryPoints cd))"

definition is_video :: "entry_point \<Rightarrow> bool" where
  "is_video ep = (entryPointType ep = Some (JStr ''video''))"

definition has_video_entry_point :: "event \<Rightarrow> bool" where
  "has_video_entry_point ev = list_ex is_video (entry_points_of ev)"

text \<open>The first video entry point, which is the one the loop stops at.\<close>

definition first_video :: "event \<Rightarrow> entry_point option" where
  "first_video ev = find is_video (entry_points_of ev)"

section \<open>Text\<close>

text \<open>
  Template literals convert the interpolated value with ToString. Integers below
  \<open>10\<^sup>2\<^sup>1\<close> in magnitude print in plain decimal; an array prints its elements joined
  by commas, \<^verbatim>\<open>null\<close> elements as the empty string.
\<close>

fun join_with :: "string \<Rightarrow> string list \<Rightarrow> string" where
  "join_with sep [] = []"
| "join_with sep [x] = x"
| "join_with sep (x # y # ys) = x @ sep @ join_with sep (y # ys)"

fun dec_nat :: "nat \<Rightarrow> string" where
  "dec_nat n =
     (if n < 10 then [''0123456789'' ! n]
      else dec_nat (n div 10) @ [''0123456789'' ! (n mod 10)])"

declare dec_nat.simps [simp del]

definition dec_int :: "int \<Rightarrow> string" where
  "dec_int i = (if i < 0 then ''-'' @ dec_nat (nat (- i)) else dec_nat (nat i))"

fun js_to_string :: "json \<Rightarrow> string" where
  "js_to_string JNull = ''null''"
| "js_to_string (JBool b) = (if b then ''true'' else ''false'')"
| "js_to_string (JNum n) = dec_int n"
| "js_to_string (JStr s) = s"
| "js_to_string (JArr xs) =
     join_with '','' (map (\<lambda>x. if x = JNull then [] else js_to_string x) xs)"
| "js_to_string (JObj kvs) = ''[object Object]''"

text \<open>
  The message of a TypeError raised by the engine itself (calling \<^verbatim>\<open>.map\<close> on a value
  that has none, writing a property of \<^verbatim>\<open>undefined\<close>). Its wording is the engine's.
\<close>

definition engine_type_error :: string where
  "engine_type_error = ''TypeError''"

section \<open>The world outside: files, clock, OAuth2 endpoint, calendar provider\<close>

record cred_data =
  client_id :: "json option"
  client_secret :: "json option"
  redirect_uris :: "json list option"

record credentials =
  web :: "cred_data option"
  installed :: "cred_data option"

record token =
  access_token :: "json option"
  refresh_token :: "json option"
  expiry_date :: "int option"

record oauth2_client =
  oc_client_id :: "json option"
  oc_client_secret :: "json option"
  oc_redirect_uri :: "json option"
  oc_credentials :: "token option"

text \<open>
  What \<^verbatim>\<open>oAuth2Client.refreshToken\<close> resolves to: an object with the properties
  \<^verbatim>\<open>tokens\<close> and \<^verbatim>\<open>res\<close> (the HTTP response, left out here). It has no property
  \<^verbatim>\<open>credentials\<close>.
\<close>

record refresh_response =
  tokens :: token

record list_params =
  maxResults :: json
  timeMin :: json
  timeMax :: "json option"

text \<open>
  Every operation on the outside world, in the order in which it is performed.
  \<open>RefreshToken r\<close> is a call of \<^verbatim>\<open>oAuth2Client.refreshToken(r)\<close>, made by
  \<^verbatim>\<open>initialize\<close> or by the client before a request; \<open>WriteToken\<close> is a token file
  written. The flag of \<open>EventsGet\<close> tells whether the request carries
  \<^verbatim>\<open>conferenceDataVersion: 1\<close>.
\<close>

datatype effect =
    ReadCredentials
  | ReadToken
  | RefreshToken "json option"
  | WriteToken token
  | EventsList list_params
  | EventsGet bool json
  | EventsInsert event
  | EventsUpdate json event
  | EventsDelete json

text \<open>
  What the outside world answers during one tool call. A failing operation answers with
  the message of the error it throws (\<open>Inl\<close>, or \<open>None\<close> where the code discards the
  message).
  \<^item> \<open>credentials_file\<close>: reading and parsing the credentials file;
  \<^item> \<open>token_file\<close>: reading and parsing the token file, \<open>None\<close> when either fails;
  \<^item> \<open>now_initialize\<close>, \<open>now_create\<close>: what \<^verbatim>\<open>Date.now()\<close> returns in
    \<^verbatim>\<open>initialize\<close> and in \<^verbatim>\<open>createMeeting\<close>; \<open>now_iso\<close>: what
    \<^verbatim>\<open>new Date().toISOString()\<close> returns in \<^verbatim>\<open>listMeetings\<close>; \<open>now_request\<close>: the
    clock as the OAuth2 client reads it before a request;
  \<^item> \<open>token_endpoint\<close>: what the OAuth2 token endpoint answers to a refresh token;
  \<^item> \<open>events_list\<close> to \<open>events_delete\<close>: the provider's answers; a list response may
    come without \<^verbatim>\<open>items\<close>.
\<close>

record env =
  credentials_file :: "string + credentials"
  token_file :: "token option"
  now_initialize :: int
  token_endpoint :: "json \<Rightarrow> string + refresh_response"
  now_request :: int
  now_iso :: string
  now_create :: int
  events_list :: "list_params \<Rightarrow> string + event list option"
  events_get :: "bool \<Rightarrow> json \<Rightarrow> string + event"
  events_insert :: "event \<Rightarrow> string + event"
  events_update :: "json \<Rightarrow> event \<Rightarrow> string + event"
  events_delete :: "json \<Rightarrow> string option"

section \<open>The OAuth2 client behind \<^verbatim>\<open>this.calendar\<close>\<close>

text \<open>
  \<^verbatim>\<open>oAuth2Client.refreshToken(r)\<close>, from the library: without a refresh token it throws
  before it sends anything, otherwise it asks the token endpoint.
\<close>

definition no_refresh_token_set :: string where
  "no_refresh_token_set = ''No refresh token is set.''"

definition refreshToken :: "env \<Rightarrow> json option \<Rightarrow> string + refresh_response" where
  "refreshToken w r =
     (case r of
        None \<Rightarrow> Inl no_refresh_token_set
      | Some v \<Rightarrow> if truthy v then token_endpoint w v else Inl no_refresh_token_set)"

text \<open>
  Modelled from the library: the OAuth2 client of google-auth-library, which the
  repository constructs (\<^verbatim>\<open>new google.auth.OAuth2\<close>) and hands to
  \<^verbatim>\<open>google.calendar\<close>, is not part of the repository. Before every request the client
  looks at its credentials (\<^verbatim>\<open>getRequestMetadataAsync\<close>):
  \<^item> with neither an access token nor a refresh token the request fails;
  \<^item> with an access token that is not expiring (\<^verbatim>\<open>isTokenExpiring\<close>: the expiry date
    is set and at most \<^verbatim>\<open>eagerRefreshThresholdMillis\<close>, five minutes, ahead of the clock)
    the request is sent with the credentials as they are;
  \<^item> otherwise the client calls \<^verbatim>\<open>this.refreshToken(credentials.refresh_token)\<close>;
    when that fails so does the request, otherwise the client keeps the new tokens, with
    the old refresh token, in memory and sends the request. Nothing is written to disk.
\<close>

definition eagerRefreshThresholdMillis :: int where
  "eagerRefreshThresholdMillis = 5 * 60 * 1000"

definition isTokenExpiring :: "token \<Rightarrow> int \<Rightarrow> bool" where
  "isTokenExpiring creds now =
     (case expiry_date creds of
        None \<Rightarrow> False
      | Some e \<Rightarrow> e \<noteq> 0 \<and> e \<le> now + eagerRefreshThresholdMillis)"

definition no_tokens_set :: string where
  "no_tokens_set = ''No access, refresh token, API key or refresh handler callback is set.''"

definition client_credentials :: "oauth2_client \<Rightarrow> token" where
  \<comment> \<open>\<^verbatim>\<open>this.credentials\<close>, the empty object until \<^verbatim>\<open>setCredentials\<close>\<close>
  "client_credentials client =
     (case oc_credentials client of
        None \<Rightarrow> \<lparr>access_token = None, refresh_token = None, expiry_date = None\<rparr>
      | Some creds \<Rightarrow> creds)"

definition getRequestMetadata :: "env \<Rightarrow> oauth2_client \<Rightarrow> (string + oauth2_client) \<times> effect list" where
  "getRequestMetadata w client =
     (let creds = client_credentials client
      in if \<not> truthy_opt (access_token creds) \<and> \<not> truthy_opt (refresh_token creds) then
           (Inl no_tokens_set, [])
         else if truthy_opt (access_token creds) \<and> \<not> isTokenExpiring creds (now_request w) then
           (Inr client, [])
         else
           (case refreshToken w (refresh_token creds) of
              Inl msg \<Rightarrow> (Inl msg, [RefreshToken (refresh_token creds)])
            | Inr response \<Rightarrow>
                (Inr (client\<lparr>oc_credentials :=
                               Some ((tokens response)\<lparr>refresh_token := refresh_token creds\<rparr>)\<rparr>),
                 [RefreshToken (refresh_token creds)])))"

text \<open>
  One request to the provider through the client: the operation \<open>op\<close> is performed, and
  answered with \<open>answer\<close>, when the client has got its request metadata.
\<close>

definition sendRequest ::
  "env \<Rightarrow> oauth2_client \<Rightarrow> effect \<Rightarrow> string + 'a \<Rightarrow> (string + 'a) \<times> oauth2_client \<times> effect list" where
  "sendRequest w client op answer =
     (case getRequestMetadata w client of
        (Inl msg, effs) \<Rightarrow> (Inl msg, client, effs)
      | (Inr client', effs) \<Rightarrow> (answer, client', effs @ [op]))"

section \<open>\<^verbatim>\<open>GoogleMeetAPI\<close>\<close>

text \<open>The only field of the client that changes: \<^verbatim>\<open>this.calendar\<close>, null until initialised.\<close>

record server =
  calendar :: "oauth2_client option"

definition no_valid_credentials :: string where
  "no_valid_credentials =
     ''No valid credentials. Please run the setup script first to authorize access.''"

definition invalid_credentials_format :: string where
  "invalid_credentials_format =
     ''Invalid credentials file format. Must contain '' @ [CHR 0x22] @ ''web'' @ [CHR 0x22]
       @ '' or '' @ [CHR 0x22] @ ''installed'' @ [CHR 0x22] @ '' property.''"

text \<open>\<^verbatim>\<open>token.expiry_date && token.expiry_date < Date.now()\<close>\<close>

definition needs_refresh :: "token \<Rightarrow> int \<Rightarrow> bool" where
  "needs_refresh tok now =
     (case expiry_date tok of None \<Rightarrow> False | Some e \<Rightarrow> e \<noteq> 0 \<and> e < now)"

text \<open>
  \<^verbatim>\<open>initialize\<close> returns the client that becomes \<^verbatim>\<open>this.calendar\<close>, or the message of
  the error it throws, together with the operations it has performed. Reading the
  credentials and taking \<^verbatim>\<open>redirect_uris[0]\<close> happen outside the \<^verbatim>\<open>try\<close> and throw
  their own error; every failure inside the \<^verbatim>\<open>try\<close> is rethrown as "No valid
  credentials".

  The refresh of an expired token reads \<^verbatim>\<open>const { credentials } = await
  oAuth2Client.refreshToken(token.refresh_token)\<close>. When the call fails, the error is
  caught. When it succeeds, its answer has no property \<^verbatim>\<open>credentials\<close>, so
  \<^verbatim>\<open>credentials\<close> is undefined, \<^verbatim>\<open>JSON.stringify(credentials)\<close> is undefined, and
  \<^verbatim>\<open>fs.writeFile\<close> rejects data that is no string before it opens the file: nothing
  is written, and that error is caught as well.
\<close>

definition initialize :: "env \<Rightarrow> (string + oauth2_client) \<times> effect list" where
  "initialize w =
     (case credentials_file w of
        Inl msg \<Rightarrow> (Inl msg, [ReadCredentials])
      | Inr creds \<Rightarrow>
          (case (case web creds of Some c \<Rightarrow> Some c | None \<Rightarrow> installed creds) of
             None \<Rightarrow> (Inl invalid_credentials_format, [ReadCredentials])
           | Some credData \<Rightarrow>
               (case redirect_uris credData of
                  None \<Rightarrow> (Inl engine_type_error, [ReadCredentials])
                | Some uris \<Rightarrow>
                    let client = \<lparr>oc_client_id = client_id credData,
                                  oc_client_secret = client_secret credData,
                                  oc_redirect_uri = (case uris of [] \<Rightarrow> None | u # _ \<Rightarrow> Some u),
                                  oc_credentials = None\<rparr>
                    in (case token_file w of
                          None \<Rightarrow> (Inl no_valid_credentials, [ReadCredentials, ReadToken])
                        | Some tok \<Rightarrow>
                            if needs_refresh tok (now_initialize w) then
                              (case refreshToken w (refresh_token tok) of
                                 Inl msg \<Rightarrow>
                                   (Inl no_valid_credentials,
                                    [ReadCredentials, ReadToken, RefreshToken (refresh_token tok)])
                               | Inr response \<Rightarrow>
                                   (Inl no_valid_credentials,
                                    [ReadCredentials, ReadToken, RefreshToken (refresh_token tok)]))
                            else
                              (Inr (client\<lparr>oc_credentials := Some tok\<rparr>),
                               [ReadCredentials, ReadToken])))))"

subsection \<open>\<^verbatim>\<open>listMeetings\<close>\<close>

fun collectMeetings :: "event list \<Rightarrow> meeting list" where
  "collectMeetings [] = []"
| "collectMeetings (ev # evs) =
     (if ev_conferenceData ev \<noteq> None then
        (case formatMeetingData ev of
           Some m \<Rightarrow> m # collectMeetings evs
         | None \<Rightarrow> collectMeetings evs)
      else collectMeetings evs)"

text \<open>The \<^verbatim>\<open>params\<close> object: \<^verbatim>\<open>timeMin\<close> defaults to now, \<^verbatim>\<open>timeMax\<close> is set when truthy.\<close>

definition listParams :: "env \<Rightarrow> json \<Rightarrow> json \<Rightarrow> json \<Rightarrow> list_params" where
  "listParams w maxRes tMin tMax =
     \<lparr>maxResults = maxRes,
      timeMin = (if \<not> truthy tMin then JStr (now_iso w) else tMin),
      timeMax = (if truthy tMax then Some tMax else None)\<rparr>"

text \<open>
  Each method returns its result or the message of the error it throws, the client after
  its requests, and the operations performed.
\<close>

definition listMeetings ::
  "env \<Rightarrow> oauth2_client \<Rightarrow> json \<Rightarrow> json \<Rightarrow> json
     \<Rightarrow> (string + meeting list) \<times> oauth2_client \<times> effect list" where
  "listMeetings w client maxRes tMin tMax =
     (let params = listParams w maxRes tMin tMax
      in (case sendRequest w client (EventsList params) (events_list w params) of
            (Inl msg, client', effs) \<Rightarrow> (Inl (''Error listing meetings: '' @ msg), client', effs)
          | (Inr items, client', effs) \<Rightarrow>
              (Inr (collectMeetings (list_or_empty items)), client', effs)))"

subsection \<open>\<^verbatim>\<open>getMeeting\<close>\<close>

definition getMeeting ::
  "env \<Rightarrow> oauth2_client \<Rightarrow> json \<Rightarrow> (string + meeting) \<times> oauth2_client \<times> effect list" where
  "getMeeting w client meetingId =
     (case sendRequest w client (EventsGet True meetingId) (events_get w True meetingId) of
        (Inl msg, client', effs) \<Rightarrow> (Inl (''Error getting meeting: '' @ msg), client', effs)
      | (Inr ev, client', effs) \<Rightarrow>
          if ev_conferenceData ev = None then
            (Inl (''Error getting meeting: '' @ ''Event with ID '' @ js_to_string meetingId
                    @ '' does not have Google Meet conferencing data''),
             client', effs)
          else
            (case formatMeetingData ev of
               None \<Rightarrow>
                 (Inl (''Error getting meeting: '' @ ''Failed to format meeting data for event ID ''
                         @ js_to_string meetingId),
                  client', effs)
             | Some m \<Rightarrow> (Inr m, client', effs)))"

subsection \<open>\<^verbatim>\<open>createMeeting\<close>\<close>

text \<open>\<^verbatim>\<open>attendees.map((email) => ({ email }))\<close>, a TypeError on anything but an array.\<close>

definition formatAttendees :: "json \<Rightarrow> event_attendee list option" where
  "formatAttendees attendees =
     (case attendees of
        JArr emails \<Rightarrow> Some (map (\<lambda>e. \<lparr>ea_email = Some e, ea_responseStatus = None\<rparr>) emails)
      | _ \<Rightarrow> None)"

definition undefined_or :: "json option \<Rightarrow> json \<Rightarrow> json" where
  \<comment> \<open>a default parameter or destructuring default: it applies to \<^verbatim>\<open>undefined\<close> only\<close>
  "undefined_or a d = (case a of None \<Rightarrow> d | Some v \<Rightarrow> v)"

text \<open>The \<^verbatim>\<open>event\<close> object sent to the provider, with a request for a new conference.\<close>

definition newEvent ::
  "env \<Rightarrow> json option \<Rightarrow> json option \<Rightarrow> json option \<Rightarrow> json \<Rightarrow> event_attendee list
     \<Rightarrow> json \<Rightarrow> event" where
  "newEvent w summary startTime endTime description formattedAttendees tz =
     \<lparr>ev_id = None,
      ev_summary = summary,
      ev_description = Some description,
      ev_start = Some \<lparr>dateTime = startTime, date = None, timeZone = Some tz\<rparr>,
      ev_end = Some \<lparr>dateTime = endTime, date = None, timeZone = Some tz\<rparr>,
      ev_attendees = Some formattedAttendees,
      ev_conferenceData =
        Some \<lparr>entryPoints = None,
              createRequest = Some \<lparr>requestId = ''meet-'' @ dec_int (now_create w)\<rparr>\<rparr>,
      ev_creator = None, ev_organizer = None,
      ev_created = None, ev_updated = None, ev_other = []\<rparr>"

definition createMeeting ::
  "env \<Rightarrow> oauth2_client \<Rightarrow> json option \<Rightarrow> json option \<Rightarrow> json option \<Rightarrow> json option
     \<Rightarrow> json option \<Rightarrow> json option \<Rightarrow> (string + meeting) \<times> oauth2_client \<times> effect list" where
  "createMeeting w client summary startTime endTime description attendees tz =
     (case formatAttendees (undefined_or attendees (JArr [])) of
        None \<Rightarrow> (Inl engine_type_error, client, [])
      | Some formattedAttendees \<Rightarrow>
          let ev = newEvent w summary startTime endTime (undefined_or description (JStr []))
                     formattedAttendees (undefined_or tz (JStr ''UTC''))
          in (case sendRequest w client (EventsInsert ev) (events_insert w ev) of
                (Inl msg, client', effs) \<Rightarrow>
                  (Inl (''Error creating meeting: '' @ msg), client', effs)
              | (Inr createdEvent, client', effs) \<Rightarrow>
                  if ev_conferenceData createdEvent = None then
                    (Inl (''Error creating meeting: ''
                            @ ''Failed to create Google Meet conferencing data''),
                     client', effs)
                  else
                    (case formatMeetingData createdEvent of
                       None \<Rightarrow>
                         (Inl (''Error creating meeting: ''
                                 @ ''Failed to format meeting data for newly created event''),
                          client', effs)
                     | Some m \<Rightarrow> (Inr m, client', effs))))"

subsection \<open>\<^verbatim>\<open>updateMeeting\<close>\<close>

text \<open>The \<^verbatim>\<open>updateData\<close> object: each key is present or not.\<close>

record update_data =
  ud_summary :: "json option"
  ud_description :: "json option"
  ud_startTime :: "json option"
  ud_endTime :: "json option"
  ud_attendees :: "json option"

text \<open>
  The five assignments to the fetched event, in the source's order. Writing
  \<^verbatim>\<open>event.start.dateTime\<close> when the event has no \<^verbatim>\<open>start\<close>, like mapping over
  attendees that are no array, is a TypeError (\<open>None\<close>).
\<close>

definition set_summary :: "json option \<Rightarrow> event \<Rightarrow> event" where
  "set_summary a ev = (case a of None \<Rightarrow> ev | Some v \<Rightarrow> ev\<lparr>ev_summary := Some v\<rparr>)"

definition set_description :: "json option \<Rightarrow> event \<Rightarrow> event" where
  "set_description a ev = (case a of None \<Rightarrow> ev | Some v \<Rightarrow> ev\<lparr>ev_description := Some v\<rparr>)"

definition set_start :: "json option \<Rightarrow> event \<Rightarrow> event option" where
  "set_start a ev =
     (case a of
        None \<Rightarrow> Some ev
      | Some v \<Rightarrow>
          (case ev_start ev of
             None \<Rightarrow> None
           | Some st \<Rightarrow> Some (ev\<lparr>ev_start := Some (st\<lparr>dateTime := Some v\<rparr>)\<rparr>)))"

definition set_end :: "json option \<Rightarrow> event \<Rightarrow> event option" where
  "set_end a ev =
     (case a of
        None \<Rightarrow> Some ev
      | Some v \<Rightarrow>
          (case ev_end ev of
             None \<Rightarrow> None
           | Some en \<Rightarrow> Some (ev\<lparr>ev_end := Some (en\<lparr>dateTime := Some v\<rparr>)\<rparr>)))"

definition set_attendees :: "json option \<Rightarrow> event \<Rightarrow> event option" where
  "set_attendees a ev =
     (case a of
        None \<Rightarrow> Some ev
      | Some v \<Rightarrow>
          (case formatAttendees v of
             None \<Rightarrow> None
           | Some as \<Rightarrow> Some (ev\<lparr>ev_attendees := Some as\<rparr>)))"

definition applyUpdate :: "update_data \<Rightarrow> event \<Rightarrow> event option" where
  "applyUpdate ud ev =
     (case set_start (ud_startTime ud) (set_description (ud_description ud)
                                          (set_summary (ud_summary ud) ev)) of
        None \<Rightarrow> None
      | Some e3 \<Rightarrow>
          (case set_end (ud_endTime ud) e3 of
             None \<Rightarrow> None
           | Some e4 \<Rightarrow> set_attendees (ud_attendees ud) e4))"

definition updateMeeting ::
  "env \<Rightarrow> oauth2_client \<Rightarrow> json \<Rightarrow> update_data
     \<Rightarrow> (string + meeting) \<times> oauth2_client \<times> effect list" where
  "updateMeeting w client meetingId ud =
     (case sendRequest w client (EventsGet False meetingId) (events_get w False meetingId) of
        (Inl msg, client1, effs1) \<Rightarrow> (Inl (''Error updating meeting: '' @ msg), client1, effs1)
      | (Inr fetched, client1, effs1) \<Rightarrow>
          (case applyUpdate ud fetched of
             None \<Rightarrow> (Inl (''Error updating meeting: '' @ engine_type_error), client1, effs1)
           | Some ev \<Rightarrow>
               (case sendRequest w client1 (EventsUpdate meetingId ev)
                       (events_update w meetingId ev) of
                  (Inl msg, client2, effs2) \<Rightarrow>
                    (Inl (''Error updating meeting: '' @ msg), client2, effs1 @ effs2)
                | (Inr updatedEvent, client2, effs2) \<Rightarrow>
                    if ev_conferenceData updatedEvent = None then
                      (Inl (''Error updating meeting: ''
                              @ ''Updated event does not have Google Meet conferencing data''),
                       client2, effs1 @ effs2)
                    else
                      (case formatMeetingData updatedEvent of
                         None \<Rightarrow>
                           (Inl (''Error updating meeting: ''
                                   @ ''Failed to format meeting data for updated event''),
                            client2, effs1 @ effs2)
                       | Some m \<Rightarrow> (Inr m, client2, effs1 @ effs2)))))"

subsection \<open>\<^verbatim>\<open>deleteMeeting\<close>\<close>

definition deleteMeeting ::
  "env \<Rightarrow> oauth2_client \<Rightarrow> json \<Rightarrow> (string + bool) \<times> oauth2_client \<times> effect list" where
  "deleteMeeting w client meetingId =
     (case sendRequest w client (EventsDelete meetingId)
             (case events_delete w meetingId of Some msg \<Rightarrow> Inl msg | None \<Rightarrow> Inr True) of
        (Inl msg, client', effs) \<Rightarrow> (Inl (''Error deleting meeting: '' @ msg), client', effs)
      | (Inr ok, client', effs) \<Rightarrow> (Inr True, client', effs))"

section \<open>\<^verbatim>\<open>GoogleMeetMcpServer.handleCallTool\<close>\<close>

datatype error_code = InvalidParams | MethodNotFound

text \<open>
  The text of a successful answer is \<^verbatim>\<open>JSON.stringify\<close> of a meeting or of a list of
  meetings; it is kept as the value that is serialised.
\<close>

datatype content = Text string | MeetingJson meeting | MeetingsJson "meeting list"

text \<open>
  A call either throws an \<^verbatim>\<open>McpError\<close> to the transport or returns an envelope, whose
  \<^verbatim>\<open>isError\<close> is set or absent.
\<close>

datatype outcome = Thrown error_code string | Returned content bool

record request =
  name :: string
  arguments :: "(string \<rightharpoonup> json) option"

definition missing_required :: "json option \<Rightarrow> json option \<Rightarrow> json option \<Rightarrow> string list" where
  "missing_required summary start_t end_t =
     (if \<not> truthy_opt summary then [''summary''] else [])
     @ (if \<not> truthy_opt start_t then [''start_time''] else [])
     @ (if \<not> truthy_opt end_t then [''end_time''] else [])"

definition finish ::
  "('a \<Rightarrow> content) \<Rightarrow> (string + 'a) \<times> oauth2_client \<times> effect list
     \<Rightarrow> outcome \<times> oauth2_client \<times> effect list" where
  \<comment> \<open>the envelope of a handler's result, or of the error caught at the end of the handler\<close>
  "finish render r =
     (case fst r of
        Inl msg \<Rightarrow> (Returned (Text (''Error: '' @ msg)) True, snd r)
      | Inr v \<Rightarrow> (Returned (render v) False, snd r))"

definition meeting_id_required :: outcome where
  "meeting_id_required = Thrown InvalidParams ''meeting_id is required''"

text \<open>The body of the handler after the session check: the chain over the tool name.\<close>

definition dispatch ::
  "env \<Rightarrow> oauth2_client \<Rightarrow> string \<Rightarrow> (string \<rightharpoonup> json) \<Rightarrow> outcome \<times> oauth2_client \<times> effect list" where
  "dispatch w client toolName args =
     (if toolName = ''list_meetings'' then
        finish MeetingsJson
          (listMeetings w client (or_default (args ''max_results'') (JNum 10))
             (or_default (args ''time_min'') JNull) (or_default (args ''time_max'') JNull))
      else if toolName = ''get_meeting'' then
        (case args ''meeting_id'' of
           None \<Rightarrow> (meeting_id_required, client, [])
         | Some meetingId \<Rightarrow>
             if \<not> truthy meetingId then (meeting_id_required, client, [])
             else finish MeetingJson (getMeeting w client meetingId))
      else if toolName = ''create_meeting'' then
        (if \<not> truthy_opt (args ''summary'') \<or> \<not> truthy_opt (args ''start_time'')
            \<or> \<not> truthy_opt (args ''end_time'') then
           (Thrown InvalidParams
              (''Missing required parameters: ''
                 @ join_with '', ''
                     (missing_required (args ''summary'') (args ''start_time'')
                        (args ''end_time''))),
            client, [])
         else
           finish MeetingJson
             (createMeeting w client (args ''summary'') (args ''start_time'') (args ''end_time'')
                (Some (undefined_or (args ''description'') (JStr [])))
                (Some (undefined_or (args ''attendees'') (JArr [])))
                (Some (undefined_or (args ''time_zone'') (JStr ''UTC'')))))
      else if toolName = ''update_meeting'' then
        (case args ''meeting_id'' of
           None \<Rightarrow> (meeting_id_required, client, [])
         | Some meeting_id \<Rightarrow>
             if \<not> truthy meeting_id then (meeting_id_required, client, [])
             else
               let updateData = \<lparr>ud_summary = args ''summary'',
                                  ud_description = args ''description'',
                                  ud_startTime = args ''start_time'',
                                  ud_endTime = args ''end_time'',
                                  ud_attendees = args ''attendees''\<rparr>
               in if args ''summary'' = None \<and> args ''description'' = None
                     \<and> args ''start_time'' = None \<and> args ''end_time'' = None
                     \<and> args ''attendees'' = None then
                    (Thrown InvalidParams ''At least one field to update must be provided'',
                     client, [])
                  else finish MeetingJson (updateMeeting w client meeting_id updateData))
      else if toolName = ''delete_meeting'' then
        (case args ''meeting_id'' of
           None \<Rightarrow> (meeting_id_required, client, [])
         | Some meeting_id \<Rightarrow>
             if \<not> truthy meeting_id then (meeting_id_required, client, [])
             else finish (\<lambda>_. Text ''Meeting successfully deleted'')
                    (deleteMeeting w client meeting_id))
      else (Thrown MethodNotFound (''Unknown tool: '' @ toolName), client, []))"

definition args_of :: "request \<Rightarrow> (string \<rightharpoonup> json)" where
  \<comment> \<open>\<^verbatim>\<open>request.params.arguments || {}\<close>\<close>
  "args_of req = (case arguments req of None \<Rightarrow> Map.empty | Some a \<Rightarrow> a)"

text \<open>
  One tool call: the outcome, the new state of the client, and the operations performed
  on the outside world, in order.
\<close>

definition handleCallTool :: "env \<Rightarrow> server \<Rightarrow> request \<Rightarrow> outcome \<times> server \<times> effect list" where
  "handleCallTool w s req =
     (case calendar s of
        Some api \<Rightarrow>
          (case dispatch w api (name req) (args_of req) of
             (out, api', effs) \<Rightarrow> (out, s\<lparr>calendar := Some api'\<rparr>, effs))
      | None \<Rightarrow>
          (case initialize w of
             (Inl msg, effs0) \<Rightarrow>
               (Returned (Text (''Error initializing Google Meet API: '' @ msg)) True, s, effs0)
           | (Inr client, effs0) \<Rightarrow>
               (case dispatch w client (name req) (args_of req) of
                  (out, client', effs) \<Rightarrow> (out, s\<lparr>calendar := Some client'\<rparr>, effs0 @ effs))))"

subsection \<open>One call after the other\<close>


section \<open>The tool registry\<close>

text \<open>
  \<^verbatim>\<open>handleListTools\<close>: the five tools with the \<^verbatim>\<open>required\<close> list of each input schema.
\<close>

definition handleListTools :: "(string \<times> string list) list" where
  "handleListTools =
     [(''list_meetings'', []),
      (''get_meeting'', [''meeting_id'']),
      (''create_meeting'', [''summary'', ''start_time'', ''end_time'']),
      (''update_meeting'', [''meeting_id'']),
      (''delete_meeting'', [''meeting_id''])]"

section \<open>Vocabulary of the properties\<close>

text \<open>
  The operations of session initialisation, those that touch the disk, and the
  operations on the calendar provider.
\<close>

fun is_session_op :: "effect \<Rightarrow> bool" where
  "is_session_op ReadCredentials = True"
| "is_session_op ReadToken = True"
| "is_session_op (RefreshToken r) = True"
| "is_session_op (WriteToken t) = True"
| "is_session_op e = False"

fun is_disk_op :: "effect \<Rightarrow> bool" where
  "is_disk_op ReadCredentials = True"
| "is_disk_op ReadToken = True"
| "is_disk_op (WriteToken t) = True"
| "is_disk_op e = False"

fun is_refresh :: "effect \<Rightarrow> bool" where
  "is_refresh (RefreshToken r) = True"
| "is_refresh e = False"

fun is_token_write :: "effect \<Rightarrow> bool" where
  "is_token_write (WriteToken t) = True"
| "is_token_write e = False"

fun is_provider_op :: "effect \<Rightarrow> bool" where
  "is_provider_op (EventsList p) = True"
| "is_provider_op (EventsGet c i) = True"
| "is_provider_op (EventsInsert e) = True"
| "is_provider_op (EventsUpdate i e) = True"
| "is_provider_op (EventsDelete i) = True"
| "is_provider_op e = False"






text \<open>
  An argument of a shape the handler trips over: attendees that are given and are no
  array.
\<close>

definition attendees_no_array :: "(string \<rightharpoonup> json) \<Rightarrow> bool" where
  "attendees_no_array args =
     (case args ''attendees'' of None \<Rightarrow> False | Some (JArr emails) \<Rightarrow> False | Some v \<Rightarrow> True)"

text \<open>
  The handler has a session when the client is initialised already or \<^verbatim>\<open>initialize\<close>
  succeeds now; \<open>session_client\<close> is the client it then works with.
\<close>

definition session_available :: "env \<Rightarrow> server \<Rightarrow> bool" where
  "session_available w s = (calendar s \<noteq> None \<or> \<not> isl (fst (initialize w)))"

definition session_client :: "env \<Rightarrow> server \<Rightarrow> oauth2_client option" where
  "session_client w s =
     (case calendar s of
        Some api \<Rightarrow> Some api
      | None \<Rightarrow> (case fst (initialize w) of Inl msg \<Rightarrow> None | Inr client \<Rightarrow> Some client))"

text \<open>
  The protocol errors as the specification lists them: an unknown tool name, a required
  parameter that is missing (falsy), an update that names no field to update.
\<close>

definition updatable_fields :: "string list" where
  "updatable_fields = [''summary'', ''description'', ''start_time'', ''end_time'', ''attendees'']"

definition protocol_error :: "string \<Rightarrow> (string \<rightharpoonup> json) \<Rightarrow> error_code option" where
  "protocol_error toolName args =
     (case map_of handleListTools toolName of
        None \<Rightarrow> Some MethodNotFound
      | Some required \<Rightarrow>
          if list_ex (\<lambda>k. \<not> truthy_opt (args k)) required then Some InvalidParams
          else if toolName = ''update_meeting'' \<and> list_all (\<lambda>k. args k = None) updatable_fields
          then Some InvalidParams
          else None)"

text \<open>
  The read-modify-write of the specification: each provided field replaces the
  corresponding field of the fetched event, each omitted one leaves it as fetched. A
  provided start or end time replaces the \<^verbatim>\<open>dateTime\<close> of the event's start or end;
  provided attendees, an array of addresses, replace the attendees by one
  \<^verbatim>\<open>{email}\<close> entry for each address, in order.
\<close>

definition replace_provided :: "(string \<rightharpoonup> json) \<Rightarrow> event \<Rightarrow> event" where
  "replace_provided args fetched =
     fetched
       \<lparr>ev_summary := (case args ''summary'' of None \<Rightarrow> ev_summary fetched | Some v \<Rightarrow> Some v),
        ev_description :=
          (case args ''description'' of None \<Rightarrow> ev_description fetched | Some v \<Rightarrow> Some v),
        ev_start :=
          (case args ''start_time'' of
             None \<Rightarrow> ev_start fetched
           | Some v \<Rightarrow> map_option (\<lambda>t. t\<lparr>dateTime := Some v\<rparr>) (ev_start fetched)),
        ev_end :=
          (case args ''end_time'' of
             None \<Rightarrow> ev_end fetched
           | Some v \<Rightarrow> map_option (\<lambda>t. t\<lparr>dateTime := Some v\<rparr>) (ev_end fetched)),
        ev_attendees :=
          (case args ''attendees'' of
             Some (JArr emails) \<Rightarrow>
               Some (map (\<lambda>e. \<lparr>ea_email = Some e, ea_responseStatus = None\<rparr>) emails)
           | _ \<Rightarrow> ev_attendees fetched)\<rparr>"

section \<open>Sample data\<close>

definition empty_event :: event where
  "empty_event =
     \<lparr>ev_id = None, ev_summary = None, ev_description = None, ev_start = None,
      ev_end = None, ev_attendees = None, ev_conferenceData = None, ev_creator = None,
      ev_organizer = None, ev_created = None, ev_updated = None, ev_other = []\<rparr>"

definition phone_entry :: entry_point where
  "phone_entry = \<lparr>entryPointType = Some (JStr ''phone''), uri = Some (JStr ''tel:+1-555-0100'')\<rparr>"

definition video_entry :: entry_point where
  "video_entry =
     \<lparr>entryPointType = Some (JStr ''video''), uri = Some (JStr ''https://meet.example/abc'')\<rparr>"

text \<open>An event with a phone and a video entry point, a start, an end and two attendees.\<close>

definition video_event :: event where
  "video_event =
     empty_event
       \<lparr>ev_id := Some (JStr ''evt1''),
        ev_description := Some (JStr ''weekly''),
        ev_start := Some \<lparr>dateTime = Some (JStr ''2025-01-10T09:00:00Z''), date = None,
                          timeZone = None\<rparr>,
        ev_end := Some \<lparr>dateTime = Some (JStr ''2025-01-10T09:30:00Z''), date = None,
                        timeZone = None\<rparr>,
        ev_attendees :=
          Some [\<lparr>ea_email = Some (JStr ''a@x.com''), ea_responseStatus = Some (JStr ''accepted'')\<rparr>,
                \<lparr>ea_email = Some (JStr ''b@x.com''), ea_responseStatus = None\<rparr>],
        ev_conferenceData :=
          Some \<lparr>entryPoints = Some [phone_entry, video_entry], createRequest = None\<rparr>\<rparr>"

text \<open>An event whose conferencing data has a phone entry point only.\<close>

definition phone_event :: event where
  "phone_event =
     empty_event
       \<lparr>ev_id := Some (JStr ''evt2''),
        ev_conferenceData := Some \<lparr>entryPoints = Some [phone_entry], createRequest = None\<rparr>\<rparr>"

text \<open>A token that expires at 2000000, and the token a refresh answers with.\<close>

definition sample_token :: token where
  "sample_token =
     \<lparr>access_token = Some (JStr ''at0''), refresh_token = Some (JStr ''rt0''),
      expiry_date = Some 2000000\<rparr>"

definition fresh_token :: token where
  "fresh_token =
     \<lparr>access_token = Some (JStr ''at1''), refresh_token = None,
      expiry_date = Some 9000000\<rparr>"

definition sample_credentials :: credentials where
  "sample_credentials =
     \<lparr>web = None,
      installed = Some \<lparr>client_id = Some (JStr ''cid''), client_secret = Some (JStr ''sec''),
                        redirect_uris = Some [JStr ''http://localhost:3000'']\<rparr>\<rparr>"

definition sample_client :: oauth2_client where
  "sample_client =
     \<lparr>oc_client_id = Some (JStr ''cid''), oc_client_secret = Some (JStr ''sec''),
      oc_redirect_uri = Some (JStr ''http://localhost:3000''),
      oc_credentials = Some sample_token\<rparr>"

text \<open>
  A world where every file is readable, every clock reads 1000 (long before the sample
  token expires), the OAuth2 endpoint answers a refresh with the fresh token, and the
  provider answers every request with success.
\<close>

definition sample_env :: env where
  "sample_env =
     \<lparr>credentials_file = Inr sample_credentials,
      token_file = Some sample_token,
      now_initialize = 1000,
      token_endpoint = (\<lambda>r. Inr \<lparr>tokens = fresh_token\<rparr>),
      now_request = 1000,
      now_iso = ''2025-01-01T00:00:00.000Z'',
      now_create = 1000,
      events_list = (\<lambda>p. Inr (Some [phone_event, video_event, empty_event])),
      events_get = (\<lambda>c i. Inr video_event),
      events_insert = (\<lambda>e. Inr video_event),
      events_update = (\<lambda>i e. Inr video_event),
      events_delete = (\<lambda>i. None)\<rparr>"

definition fresh_server :: server where
  "fresh_server = \<lparr>calendar = None\<rparr>"

definition ready_server :: server where
  "ready_server = \<lparr>calendar = Some sample_client\<rparr>"

section \<open>Basic facts\<close>

lemma findMeetLink_find:
  "findMeetLink eps = (case find is_video eps of None \<Rightarrow> Some JNull | Some ep \<Rightarrow> uri ep)"
  by (induction eps) (simp_all add: is_video_def)

lemma list_ex_find: "list_ex P xs \<longleftrightarrow> find P xs \<noteq> None"
  by (induction xs) simp_all

lemma formatMeetingData_None_iff:
  "formatMeetingData ev = None \<longleftrightarrow>
     (case first_video ev of None \<Rightarrow> True | Some ep \<Rightarrow> \<not> truthy_opt (uri ep))"
  by (auto simp: formatMeetingData_def first_video_def entry_points_of_def findMeetLink_find
      split: option.splits)

lemma no_conf_no_video: "ev_conferenceData ev = None \<Longrightarrow> \<not> has_video_entry_point ev"
  by (simp add: has_video_entry_point_def entry_points_of_def)

lemma no_video_format_None: "\<not> has_video_entry_point ev \<Longrightarrow> formatMeetingData ev = None"
  by (simp add: formatMeetingData_None_iff has_video_entry_point_def list_ex_find first_video_def)

lemma collectMeetings_map_filter:
  "collectMeetings evs = List.map_filter formatMeetingData evs"
  by (induction evs) (auto simp: List.map_filter_simps formatMeetingData_def split: option.splits)

lemma map_filter_video:
  "List.map_filter formatMeetingData (filter has_video_entry_point evs)
     = List.map_filter formatMeetingData evs"
  by (induction evs) (auto simp: List.map_filter_simps no_video_format_None split: option.splits)

lemma map_filter_conference:
  "List.map_filter formatMeetingData (filter (\<lambda>ev. ev_conferenceData ev \<noteq> None) evs)
     = List.map_filter formatMeetingData evs"
  by (induction evs) (auto simp: List.map_filter_simps formatMeetingData_def split: option.splits)

text \<open>The kinds of operations exclude one another.\<close>

lemma provider_op_kinds:
  "is_provider_op e \<Longrightarrow> \<not> is_session_op e \<and> \<not> is_refresh e \<and> \<not> is_disk_op e \<and> \<not> is_token_write e"
  by (cases e) simp_all

lemma refresh_kinds: "is_refresh e \<Longrightarrow> \<not> is_provider_op e \<and> \<not> is_disk_op e \<and> is_session_op e"
  by (cases e) simp_all




text \<open>\<^verbatim>\<open>initialize\<close> touches the credential file, the token file and the OAuth2 endpoint only.\<close>

lemma initialize_effects:
  "e \<in> set (snd (initialize w)) \<Longrightarrow> is_session_op e"
  by (auto simp: initialize_def Let_def split: sum.splits option.splits if_splits)

lemma initialize_no_provider: "list_all (\<lambda>e. \<not> is_provider_op e) (snd (initialize w))"
  unfolding list_all_iff using initialize_effects [of _ w] provider_op_kinds by blast

lemma finish_simps:
  "fst (finish f r) = (case fst r of Inl msg \<Rightarrow> Returned (Text (''Error: '' @ msg)) True
                       | Inr v \<Rightarrow> Returned (f v) False)"
  "snd (finish f r) = snd r"
  by (auto simp: finish_def split: sum.splits)


section \<open>Facts about the OAuth2 client\<close>

text \<open>Before a request the client performs at most one operation, a refresh call.\<close>

lemma getRequestMetadata_effects:
  "snd (getRequestMetadata w c) = []
   \<or> snd (getRequestMetadata w c) = [RefreshToken (refresh_token (client_credentials c))]"
  by (simp add: getRequestMetadata_def Let_def split: sum.splits)

lemma getRequestMetadata_refresh:
  "e \<in> set (snd (getRequestMetadata w c)) \<Longrightarrow> is_refresh e"
  using getRequestMetadata_effects [of w c] by auto


text \<open>A request is either denied by the client or sent and answered.\<close>

lemma sendRequest_cases:
  obtains (denied) msg effs where
      "getRequestMetadata w c = (Inl msg, effs)" "sendRequest w c op a = (Inl msg, c, effs)"
    | (sent) c' effs where
      "getRequestMetadata w c = (Inr c', effs)" "sendRequest w c op a = (a, c', effs @ [op])"
proof (cases "getRequestMetadata w c")
  case (Pair r effs)
  show ?thesis
  proof (cases r)
    case (Inl msg)
    with Pair show ?thesis by (intro denied [of msg effs]) (simp_all add: sendRequest_def)
  next
    case (Inr c')
    with Pair show ?thesis by (intro sent [of c' effs]) (simp_all add: sendRequest_def)
  qed
qed

lemma metadata_effects_refresh:
  "getRequestMetadata w c = (r, effs) \<Longrightarrow> list_all is_refresh effs"
  using getRequestMetadata_refresh [of _ w c] by (auto simp: list_all_iff)

lemma refresh_not_provider: "list_all is_refresh effs \<Longrightarrow> e \<in> set effs \<Longrightarrow> \<not> is_provider_op e"
  using refresh_kinds by (auto simp: list_all_iff)

section \<open>Facts about the methods of the client\<close>

text \<open>
  Each method, by the ways its requests can go: denied by the OAuth2 client, or sent and
  answered by the provider.
\<close>

lemma listMeetings_cases:
  obtains (denied) msg effs where
      "getRequestMetadata w c = (Inl msg, effs)" "list_all is_refresh effs"
      "listMeetings w c a b d = (Inl (''Error listing meetings: '' @ msg), c, effs)"
    | (sent) c' effs where
      "getRequestMetadata w c = (Inr c', effs)" "list_all is_refresh effs"
      "listMeetings w c a b d =
         ((case events_list w (listParams w a b d) of
             Inl msg \<Rightarrow> Inl (''Error listing meetings: '' @ msg)
           | Inr items \<Rightarrow> Inr (collectMeetings (list_or_empty items))),
          c', effs @ [EventsList (listParams w a b d)])"
proof (cases rule: sendRequest_cases
    [of w c "EventsList (listParams w a b d)" "events_list w (listParams w a b d)"])
  case (denied msg effs)
  then show ?thesis
    by (intro that(1) [of msg effs]) (simp_all add: listMeetings_def Let_def metadata_effects_refresh)
next
  case (sent c' effs)
  then show ?thesis
    by (intro that(2) [of c' effs])
      (simp_all add: listMeetings_def Let_def metadata_effects_refresh split: sum.splits)
qed

lemma getMeeting_cases:
  obtains (denied) msg effs where
      "getRequestMetadata w c = (Inl msg, effs)" "list_all is_refresh effs"
      "getMeeting w c i = (Inl (''Error getting meeting: '' @ msg), c, effs)"
    | (sent) c' effs where
      "getRequestMetadata w c = (Inr c', effs)" "list_all is_refresh effs"
      "getMeeting w c i =
         ((case events_get w True i of
             Inl msg \<Rightarrow> Inl (''Error getting meeting: '' @ msg)
           | Inr ev \<Rightarrow>
               if ev_conferenceData ev = None then
                 Inl (''Error getting meeting: '' @ ''Event with ID '' @ js_to_string i
                        @ '' does not have Google Meet conferencing data'')
               else (case formatMeetingData ev of
                       None \<Rightarrow> Inl (''Error getting meeting: ''
                                      @ ''Failed to format meeting data for event ID ''
                                      @ js_to_string i)
                     | Some m \<Rightarrow> Inr m)),
          c', effs @ [EventsGet True i])"
proof (cases rule: sendRequest_cases [of w c "EventsGet True i" "events_get w True i"])
  case (denied msg effs)
  then show ?thesis
    by (intro that(1) [of msg effs]) (simp_all add: getMeeting_def metadata_effects_refresh)
next
  case (sent c' effs)
  then show ?thesis
    by (intro that(2) [of c' effs])
      (simp_all add: getMeeting_def metadata_effects_refresh split: sum.splits option.splits)
qed

lemma createMeeting_cases:
  obtains (type_error)
      "formatAttendees (undefined_or at (JArr [])) = None"
      "createMeeting w c su st en de at tz = (Inl engine_type_error, c, [])"
    | (denied) fa msg effs where
      "formatAttendees (undefined_or at (JArr [])) = Some fa"
      "getRequestMetadata w c = (Inl msg, effs)" "list_all is_refresh effs"
      "createMeeting w c su st en de at tz = (Inl (''Error creating meeting: '' @ msg), c, effs)"
    | (sent) fa c' effs where
      "formatAttendees (undefined_or at (JArr [])) = Some fa"
      "getRequestMetadata w c = (Inr c', effs)" "list_all is_refresh effs"
      "createMeeting w c su st en de at tz =
         ((case events_insert w (newEvent w su st en (undefined_or de (JStr [])) fa
                                   (undefined_or tz (JStr ''UTC''))) of
             Inl msg \<Rightarrow> Inl (''Error creating meeting: '' @ msg)
           | Inr ev \<Rightarrow>
               if ev_conferenceData ev = None then
                 Inl (''Error creating meeting: ''
                        @ ''Failed to create Google Meet conferencing data'')
               else (case formatMeetingData ev of
                       None \<Rightarrow> Inl (''Error creating meeting: ''
                                      @ ''Failed to format meeting data for newly created event'')
                     | Some m \<Rightarrow> Inr m)),
          c', effs @ [EventsInsert (newEvent w su st en (undefined_or de (JStr [])) fa
                                      (undefined_or tz (JStr ''UTC'')))])"
proof (cases "formatAttendees (undefined_or at (JArr []))")
  case None
  then show ?thesis by (intro that(1)) (simp_all add: createMeeting_def)
next
  case (Some fa)
  let ?ev = "newEvent w su st en (undefined_or de (JStr [])) fa (undefined_or tz (JStr ''UTC''))"
  show ?thesis
  proof (cases rule: sendRequest_cases [of w c "EventsInsert ?ev" "events_insert w ?ev"])
    case (denied msg effs)
    with Some show ?thesis
      by (intro that(2) [of fa msg effs])
        (simp_all add: createMeeting_def Let_def metadata_effects_refresh)
  next
    case (sent c' effs)
    with Some show ?thesis
      by (intro that(3) [of fa c' effs])
        (simp_all add: createMeeting_def Let_def metadata_effects_refresh
          split: sum.splits option.splits)
  qed
qed

lemma deleteMeeting_cases:
  obtains (denied) msg effs where
      "getRequestMetadata w c = (Inl msg, effs)" "list_all is_refresh effs"
      "deleteMeeting w c i = (Inl (''Error deleting meeting: '' @ msg), c, effs)"
    | (sent) c' effs where
      "getRequestMetadata w c = (Inr c', effs)" "list_all is_refresh effs"
      "deleteMeeting w c i =
         ((case events_delete w i of
             Some msg \<Rightarrow> Inl (''Error deleting meeting: '' @ msg)
           | None \<Rightarrow> Inr True),
          c', effs @ [EventsDelete i])"
proof (cases rule: sendRequest_cases
    [of w c "EventsDelete i" "case events_delete w i of Some msg \<Rightarrow> Inl msg | None \<Rightarrow> Inr True"])
  case (denied msg effs)
  then show ?thesis
    by (intro that(1) [of msg effs]) (simp_all add: deleteMeeting_def metadata_effects_refresh)
next
  case (sent c' effs)
  then show ?thesis
    by (intro that(2) [of c' effs])
      (simp_all add: deleteMeeting_def metadata_effects_refresh split: option.splits)
qed

lemma updateMeeting_cases:
  obtains (denied) msg effs where
      "getRequestMetadata w c = (Inl msg, effs)" "list_all is_refresh effs"
      "updateMeeting w c i ud = (Inl (''Error updating meeting: '' @ msg), c, effs)"
    | (fetch_failed) c1 effs1 msg where
      "getRequestMetadata w c = (Inr c1, effs1)" "list_all is_refresh effs1"
      "events_get w False i = Inl msg"
      "updateMeeting w c i ud =
         (Inl (''Error updating meeting: '' @ msg), c1, effs1 @ [EventsGet False i])"
    | (type_error) c1 effs1 fetched where
      "getRequestMetadata w c = (Inr c1, effs1)" "list_all is_refresh effs1"
      "events_get w False i = Inr fetched" "applyUpdate ud fetched = None"
      "updateMeeting w c i ud =
         (Inl (''Error updating meeting: '' @ engine_type_error), c1, effs1 @ [EventsGet False i])"
    | (denied2) c1 effs1 fetched ev msg effs2 where
      "getRequestMetadata w c = (Inr c1, effs1)" "list_all is_refresh effs1"
      "events_get w False i = Inr fetched" "applyUpdate ud fetched = Some ev"
      "getRequestMetadata w c1 = (Inl msg, effs2)" "list_all is_refresh effs2"
      "updateMeeting w c i ud =
         (Inl (''Error updating meeting: '' @ msg), c1, effs1 @ [EventsGet False i] @ effs2)"
    | (written) c1 effs1 fetched ev c2 effs2 where
      "getRequestMetadata w c = (Inr c1, effs1)" "list_all is_refresh effs1"
      "events_get w False i = Inr fetched" "applyUpdate ud fetched = Some ev"
      "getRequestMetadata w c1 = (Inr c2, effs2)" "list_all is_refresh effs2"
      "updateMeeting w c i ud =
         ((case events_update w i ev of
             Inl msg \<Rightarrow> Inl (''Error updating meeting: '' @ msg)
           | Inr u \<Rightarrow>
               if ev_conferenceData u = None then
                 Inl (''Error updating meeting: ''
                        @ ''Updated event does not have Google Meet conferencing data'')
               else (case formatMeetingData u of
                       None \<Rightarrow> Inl (''Error updating meeting: ''
                                      @ ''Failed to format meeting data for updated event'')
                     | Some m \<Rightarrow> Inr m)),
          c2, effs1 @ [EventsGet False i] @ effs2 @ [EventsUpdate i ev])"
proof (cases rule: sendRequest_cases [of w c "EventsGet False i" "events_get w False i"])
  case (denied msg effs)
  then show ?thesis
    by (intro that(1) [of msg effs]) (simp_all add: updateMeeting_def metadata_effects_refresh)
next
  case s1: (sent c1 effs1)
  note r1 = metadata_effects_refresh [OF s1(1)]
  show ?thesis
  proof (cases "events_get w False i")
    case (Inl msg)
    with s1 r1 show ?thesis
      by (intro that(2) [of c1 effs1 msg]) (simp_all add: updateMeeting_def)
  next
    case (Inr fetched)
    show ?thesis
    proof (cases "applyUpdate ud fetched")
      case None
      with s1 r1 Inr show ?thesis
        by (intro that(3) [of c1 effs1 fetched]) (simp_all add: updateMeeting_def)
    next
      case (Some ev)
      show ?thesis
      proof (cases rule: sendRequest_cases
          [of w c1 "EventsUpdate i ev" "events_update w i ev"])
        case (denied msg effs2)
        with s1 r1 Inr Some show ?thesis
          by (intro that(4) [of c1 effs1 fetched ev msg effs2])
            (simp_all add: updateMeeting_def metadata_effects_refresh)
      next
        case (sent c2 effs2)
        with s1 r1 Inr Some show ?thesis
          by (intro that(5) [of c1 effs1 fetched ev c2 effs2])
            (simp_all add: updateMeeting_def metadata_effects_refresh
              split: sum.splits option.splits)
      qed
    qed
  qed
qed







text \<open>The operations of each method: refresh calls and its own requests.\<close>

lemma listMeetings_ops:
  "e \<in> set (snd (snd (listMeetings w c a b d))) \<Longrightarrow>
     is_refresh e \<or> e = EventsList (listParams w a b d)"
  by (cases rule: listMeetings_cases [of w c a b d]) (auto simp: list_all_iff)

lemma getMeeting_ops:
  "e \<in> set (snd (snd (getMeeting w c i))) \<Longrightarrow> is_refresh e \<or> e = EventsGet True i"
  by (cases rule: getMeeting_cases [of w c i]) (auto simp: list_all_iff)

lemma createMeeting_ops:
  "e \<in> set (snd (snd (createMeeting w c su st en de at tz))) \<Longrightarrow>
     is_refresh e \<or> (\<exists>p. e = EventsInsert p)"
  by (cases rule: createMeeting_cases [of at w c su st en de tz]) (auto simp: list_all_iff)

lemma deleteMeeting_ops:
  "e \<in> set (snd (snd (deleteMeeting w c i))) \<Longrightarrow> is_refresh e \<or> e = EventsDelete i"
  by (cases rule: deleteMeeting_cases [of w c i]) (auto simp: list_all_iff)

lemma updateMeeting_ops:
  "e \<in> set (snd (snd (updateMeeting w c i ud))) \<Longrightarrow>
     is_refresh e \<or> e = EventsGet False i \<or> (\<exists>p. e = EventsUpdate i p)"
  by (cases rule: updateMeeting_cases [of w c i ud]) (auto simp: list_all_iff)

section \<open>Facts about the handler\<close>

lemma tool_cases:
  obtains (lst) "n = ''list_meetings''" | (get) "n = ''get_meeting''"
    | (cre) "n = ''create_meeting''" | (upd) "n = ''update_meeting''"
    | (del) "n = ''delete_meeting''"
    | (unk) "n \<noteq> ''list_meetings''" "n \<noteq> ''get_meeting''" "n \<noteq> ''create_meeting''"
        "n \<noteq> ''update_meeting''" "n \<noteq> ''delete_meeting''"
  by blast

lemma map_of_tools:
  "map_of handleListTools n =
     (if n = ''list_meetings'' then Some []
      else if n = ''get_meeting'' then Some [''meeting_id'']
      else if n = ''create_meeting'' then Some [''summary'', ''start_time'', ''end_time'']
      else if n = ''update_meeting'' then Some [''meeting_id'']
      else if n = ''delete_meeting'' then Some [''meeting_id'']
      else None)"
  by (simp add: handleListTools_def)

text \<open>The five branches of the handler, and the branch of an unknown tool.\<close>

lemma dispatch_list:
  "dispatch w c ''list_meetings'' args =
     finish MeetingsJson
       (listMeetings w c (or_default (args ''max_results'') (JNum 10))
          (or_default (args ''time_min'') JNull) (or_default (args ''time_max'') JNull))"
  by (simp add: dispatch_def)

lemma dispatch_no_id:
  assumes "n = ''get_meeting'' \<or> n = ''update_meeting'' \<or> n = ''delete_meeting''"
    and "\<not> truthy_opt (args ''meeting_id'')"
  shows "dispatch w c n args = (Thrown InvalidParams ''meeting_id is required'', c, [])"
  using assms
  by (cases "args ''meeting_id''") (auto simp: dispatch_def meeting_id_required_def)

lemma dispatch_get:
  "args ''meeting_id'' = Some i \<Longrightarrow> truthy i \<Longrightarrow>
     dispatch w c ''get_meeting'' args = finish MeetingJson (getMeeting w c i)"
  by (simp add: dispatch_def)

lemma dispatch_delete:
  "args ''meeting_id'' = Some i \<Longrightarrow> truthy i \<Longrightarrow>
     dispatch w c ''delete_meeting'' args =
       finish (\<lambda>_. Text ''Meeting successfully deleted'') (deleteMeeting w c i)"
  by (simp add: dispatch_def)

lemma dispatch_create_missing:
  "\<not> truthy_opt (args ''summary'') \<or> \<not> truthy_opt (args ''start_time'')
     \<or> \<not> truthy_opt (args ''end_time'') \<Longrightarrow>
   dispatch w c ''create_meeting'' args =
     (Thrown InvalidParams
        (''Missing required parameters: ''
           @ join_with '', ''
               (missing_required (args ''summary'') (args ''start_time'') (args ''end_time''))),
      c, [])"
  by (simp add: dispatch_def)

lemma dispatch_create:
  "truthy_opt (args ''summary'') \<Longrightarrow> truthy_opt (args ''start_time'') \<Longrightarrow>
   truthy_opt (args ''end_time'') \<Longrightarrow>
   dispatch w c ''create_meeting'' args =
     finish MeetingJson
       (createMeeting w c (args ''summary'') (args ''start_time'') (args ''end_time'')
          (Some (undefined_or (args ''description'') (JStr [])))
          (Some (undefined_or (args ''attendees'') (JArr [])))
          (Some (undefined_or (args ''time_zone'') (JStr ''UTC''))))"
  by (simp add: dispatch_def)

lemma dispatch_update_no_field:
  "args ''meeting_id'' = Some i \<Longrightarrow> truthy i \<Longrightarrow>
   args ''summary'' = None \<Longrightarrow> args ''description'' = None \<Longrightarrow>
   args ''start_time'' = None \<Longrightarrow> args ''end_time'' = None \<Longrightarrow> args ''attendees'' = None \<Longrightarrow>
   dispatch w c ''update_meeting'' args =
     (Thrown InvalidParams ''At least one field to update must be provided'', c, [])"
  by (simp add: dispatch_def Let_def)

lemma dispatch_update:
  "args ''meeting_id'' = Some i \<Longrightarrow> truthy i \<Longrightarrow>
   \<not> (args ''summary'' = None \<and> args ''description'' = None
       \<and> args ''start_time'' = None \<and> args ''end_time'' = None \<and> args ''attendees'' = None) \<Longrightarrow>
   dispatch w c ''update_meeting'' args =
     finish MeetingJson
       (updateMeeting w c i \<lparr>ud_summary = args ''summary'',
                              ud_description = args ''description'',
                              ud_startTime = args ''start_time'',
                              ud_endTime = args ''end_time'',
                              ud_attendees = args ''attendees''\<rparr>)"
  by (auto simp: dispatch_def Let_def)

lemma dispatch_unknown:
  "n \<noteq> ''list_meetings'' \<Longrightarrow> n \<noteq> ''get_meeting'' \<Longrightarrow> n \<noteq> ''create_meeting'' \<Longrightarrow>
   n \<noteq> ''update_meeting'' \<Longrightarrow> n \<noteq> ''delete_meeting'' \<Longrightarrow>
   dispatch w c n args = (Thrown MethodNotFound (''Unknown tool: '' @ n), c, [])"
  by (simp add: dispatch_def)

text \<open>
  The handler's body, by what it does: it throws a protocol error before any
  operation, or it runs one method of the client and wraps its result.
\<close>

lemma dispatch_cases:
  obtains (thrown) code m where
      "protocol_error n args = Some code" "dispatch w c n args = (Thrown code m, c, [])"
    | (list_meetings)
      "protocol_error n args = None" "n = ''list_meetings''"
      "dispatch w c n args =
         finish MeetingsJson
           (listMeetings w c (or_default (args ''max_results'') (JNum 10))
              (or_default (args ''time_min'') JNull) (or_default (args ''time_max'') JNull))"
    | (get_meeting) i where
      "protocol_error n args = None" "n = ''get_meeting''"
      "args ''meeting_id'' = Some i" "truthy i"
      "dispatch w c n args = finish MeetingJson (getMeeting w c i)"
    | (create_meeting)
      "protocol_error n args = None" "n = ''create_meeting''"
      "dispatch w c n args =
         finish MeetingJson
           (createMeeting w c (args ''summary'') (args ''start_time'') (args ''end_time'')
              (Some (undefined_or (args ''description'') (JStr [])))
              (Some (undefined_or (args ''attendees'') (JArr [])))
              (Some (undefined_or (args ''time_zone'') (JStr ''UTC''))))"
    | (update_meeting) i where
      "protocol_error n args = None" "n = ''update_meeting''"
      "args ''meeting_id'' = Some i" "truthy i"
      "dispatch w c n args =
         finish MeetingJson
           (updateMeeting w c i \<lparr>ud_summary = args ''summary'',
                                  ud_description = args ''description'',
                                  ud_startTime = args ''start_time'',
                                  ud_endTime = args ''end_time'',
                                  ud_attendees = args ''attendees''\<rparr>)"
    | (delete_meeting) i where
      "protocol_error n args = None" "n = ''delete_meeting''"
      "args ''meeting_id'' = Some i" "truthy i"
      "dispatch w c n args =
         finish (\<lambda>_. Text ''Meeting successfully deleted'') (deleteMeeting w c i)"
proof (cases rule: tool_cases [of n])
  case lst
  then show ?thesis
    by (intro that(2)) (simp_all add: protocol_error_def map_of_tools dispatch_list)
next
  case get
  show ?thesis
  proof (cases "truthy_opt (args ''meeting_id'')")
    case False
    with get show ?thesis
      by (intro that(1) [of InvalidParams "''meeting_id is required''"])
        (simp_all add: protocol_error_def map_of_tools dispatch_no_id)
  next
    case True
    then obtain i where i: "args ''meeting_id'' = Some i" "truthy i"
      by (cases "args ''meeting_id''") auto
    with get show ?thesis
      by (intro that(3) [of i]) (simp_all add: protocol_error_def map_of_tools dispatch_get)
  qed
next
  case cre
  show ?thesis
  proof (cases "truthy_opt (args ''summary'') \<and> truthy_opt (args ''start_time'')
      \<and> truthy_opt (args ''end_time'')")
    case True
    with cre show ?thesis
      by (intro that(4)) (simp_all add: protocol_error_def map_of_tools dispatch_create)
  next
    case False
    then have f: "\<not> truthy_opt (args ''summary'') \<or> \<not> truthy_opt (args ''start_time'')
     \<or> \<not> truthy_opt (args ''end_time'')" by blast
    have "protocol_error n args = Some InvalidParams"
      using cre f by (auto simp: protocol_error_def map_of_tools)
    then show ?thesis
      using that(1) dispatch_create_missing [OF f, of w c] cre by blast
  qed
next
  case upd
  show ?thesis
  proof (cases "truthy_opt (args ''meeting_id'')")
    case False
    with upd show ?thesis
      by (intro that(1) [of InvalidParams "''meeting_id is required''"])
        (simp_all add: protocol_error_def map_of_tools dispatch_no_id)
  next
    case True
    then obtain i where i: "args ''meeting_id'' = Some i" "truthy i"
      by (cases "args ''meeting_id''") auto
    show ?thesis
    proof (cases "args ''summary'' = None \<and> args ''description'' = None
       \<and> args ''start_time'' = None \<and> args ''end_time'' = None \<and> args ''attendees'' = None")
      case True
      with upd i show ?thesis
        by (intro that(1) [of InvalidParams "''At least one field to update must be provided''"])
          (simp_all add: protocol_error_def map_of_tools dispatch_update_no_field
            updatable_fields_def)
    next
      case False
      have "protocol_error n args = None"
        using upd i False by (auto simp: protocol_error_def map_of_tools updatable_fields_def)
      with upd i False show ?thesis
        by (intro that(5) [of i]) (simp_all add: dispatch_update)
    qed
  qed
next
  case del
  show ?thesis
  proof (cases "truthy_opt (args ''meeting_id'')")
    case False
    with del show ?thesis
      by (intro that(1) [of InvalidParams "''meeting_id is required''"])
        (simp_all add: protocol_error_def map_of_tools dispatch_no_id)
  next
    case True
    then obtain i where i: "args ''meeting_id'' = Some i" "truthy i"
      by (cases "args ''meeting_id''") auto
    with del show ?thesis
      by (intro that(6) [of i]) (simp_all add: protocol_error_def map_of_tools dispatch_delete)
  qed
next
  case unk
  then show ?thesis
    by (intro that(1) [of MethodNotFound "''Unknown tool: '' @ n"])
      (simp_all add: protocol_error_def map_of_tools dispatch_unknown)
qed




text \<open>Which tool performs which provider operation.\<close>

lemma dispatch_tool_of_op:
  assumes "e \<in> set (snd (snd (dispatch w c n args)))" "is_provider_op e"
  shows "(case e of
            EventsList p \<Rightarrow> n = ''list_meetings''
          | EventsGet cdv i \<Rightarrow> if cdv then n = ''get_meeting'' else n = ''update_meeting''
          | EventsInsert p \<Rightarrow> n = ''create_meeting''
          | EventsUpdate i p \<Rightarrow> n = ''update_meeting''
          | EventsDelete i \<Rightarrow> n = ''delete_meeting''
          | _ \<Rightarrow> False)"
proof -
  have nr: "\<not> is_refresh e" using assms(2) provider_op_kinds by blast
  show ?thesis
  proof (cases rule: dispatch_cases [of n args w c])
    case (thrown code m)
    with assms show ?thesis by simp
  next
    case list_meetings
    with assms nr show ?thesis by (auto simp: finish_simps dest: listMeetings_ops)
  next
    case (get_meeting i)
    with assms nr show ?thesis by (auto simp: finish_simps dest: getMeeting_ops)
  next
    case create_meeting
    with assms nr show ?thesis by (auto simp: finish_simps dest: createMeeting_ops)
  next
    case (update_meeting i)
    with assms nr show ?thesis by (auto simp: finish_simps dest: updateMeeting_ops)
  next
    case (delete_meeting i)
    with assms nr show ?thesis by (auto simp: finish_simps dest: deleteMeeting_ops)
  qed
qed




text \<open>A call is the session check followed, when there is a session, by the handler's body.\<close>

lemma session_available_client: "session_available w s \<longleftrightarrow> session_client w s \<noteq> None"
  by (auto simp: session_available_def session_client_def split: option.splits sum.splits)


lemma handleCallTool_session:
  assumes "session_client w s = Some c"
  shows "handleCallTool w s req =
           (fst (dispatch w c (name req) (args_of req)),
            s\<lparr>calendar := Some (fst (snd (dispatch w c (name req) (args_of req))))\<rparr>,
            (if calendar s = None then snd (initialize w) else [])
              @ snd (snd (dispatch w c (name req) (args_of req))))"
proof (cases "calendar s")
  case (Some api)
  with assms have "api = c" by (simp add: session_client_def)
  with Some show ?thesis
    by (cases "dispatch w c (name req) (args_of req)") (simp add: handleCallTool_def)
next
  case None
  with assms have "fst (initialize w) = Inr c"
    by (cases "fst (initialize w)") (simp_all add: session_client_def)
  with None show ?thesis
    by (cases "initialize w"; cases "dispatch w c (name req) (args_of req)")
      (simp add: handleCallTool_def)
qed

lemma handleCallTool_no_session:
  "\<not> session_available w s \<Longrightarrow>
     \<exists>msg. fst (initialize w) = Inl msg
        \<and> handleCallTool w s req =
            (Returned (Text (''Error initializing Google Meet API: '' @ msg)) True, s,
             snd (initialize w))"
  by (cases "initialize w"; cases "fst (initialize w)")
    (auto simp: handleCallTool_def session_available_def split: option.splits)

lemma provider_op_in_call:
  assumes "e \<in> set (snd (snd (handleCallTool w s req)))" "is_provider_op e"
  shows "\<exists>c. session_client w s = Some c
           \<and> e \<in> set (snd (snd (dispatch w c (name req) (args_of req))))"
proof (cases "session_available w s")
  case False
  from handleCallTool_no_session [OF False, of req] assms(1)
  have "e \<in> set (snd (initialize w))" by auto
  with initialize_effects [of e w] assms(2) provider_op_kinds show ?thesis by blast
next
  case True
  then obtain c where c: "session_client w s = Some c"
    by (auto simp: session_available_client)
  have "e \<notin> set (snd (initialize w))"
    using initialize_effects [of e w] assms(2) provider_op_kinds by blast
  with assms(1) c show ?thesis
    by (auto simp: handleCallTool_session [OF c] split: if_splits)
qed

lemma no_provider_without_session:
  "\<not> session_available w s \<Longrightarrow>
     list_all (\<lambda>e. \<not> is_provider_op e) (snd (snd (handleCallTool w s req)))"
  using handleCallTool_no_session [of w s req] initialize_no_provider [of w] by auto

text \<open>The sample events.\<close>

lemma first_video_video_event: "first_video video_event = Some video_entry"
  by (simp add: first_video_def entry_points_of_def video_event_def empty_event_def
      list_or_empty_def is_video_def phone_entry_def video_entry_def)

lemma has_video_samples:
  "has_video_entry_point video_event" "\<not> has_video_entry_point phone_event"
  "\<not> has_video_entry_point empty_event"
  by (simp_all add: has_video_entry_point_def entry_points_of_def video_event_def
      phone_event_def empty_event_def list_or_empty_def is_video_def phone_entry_def
      video_entry_def)

lemma format_phone_event: "formatMeetingData phone_event = None"
  by (simp add: no_video_format_None has_video_samples)

lemma format_empty_event: "formatMeetingData empty_event = None"
  by (simp add: no_video_format_None has_video_samples)

lemma conference_samples:
  "ev_conferenceData phone_event \<noteq> None" "ev_conferenceData empty_event = None"
  by (simp_all add: phone_event_def empty_event_def)

text \<open>The sample client's token is not expiring when the clock reads 1000.\<close>

lemma metadata_sample:
  "now_request w = 1000 \<Longrightarrow> getRequestMetadata w sample_client = (Inr sample_client, [])"
  by (simp add: getRequestMetadata_def client_credentials_def sample_client_def
      sample_token_def isTokenExpiring_def eagerRefreshThresholdMillis_def Let_def)

lemma session_ready: "session_client w ready_server = Some sample_client"
  by (simp add: session_client_def ready_server_def)

lemma now_request_sample: "now_request sample_env = 1000"
  by (simp add: sample_env_def)

lemma init_no_token:
  "initialize (sample_env\<lparr>token_file := None\<rparr>)
     = (Inl no_valid_credentials, [ReadCredentials, ReadToken])"
  by (simp add: initialize_def sample_env_def sample_credentials_def Let_def)



lemma initialize_no_write: "list_all (\<lambda>e. \<not> is_token_write e) (snd (initialize w))"
  by (auto simp: initialize_def Let_def split: sum.splits option.splits if_splits)


text \<open>A call whose handler throws before any operation.\<close>

lemma thrown_call:
  assumes "\<And>c. dispatch w c (name req) (args_of req) = (Thrown code m, c, [])"
  shows "list_all (\<lambda>e. \<not> is_provider_op e) (snd (snd (handleCallTool w s req)))"
    and "session_available w s \<Longrightarrow> fst (handleCallTool w s req) = Thrown code m"
    and "\<not> session_available w s \<Longrightarrow>
           \<exists>msg. fst (handleCallTool w s req) = Returned (Text msg) True"
proof -
  show "list_all (\<lambda>e. \<not> is_provider_op e) (snd (snd (handleCallTool w s req)))"
  proof (cases "session_available w s")
    case False
    then show ?thesis by (rule no_provider_without_session)
  next
    case True
    then obtain c where c: "session_client w s = Some c"
      by (auto simp: session_available_client)
    show ?thesis
      using initialize_no_provider [of w] by (simp add: handleCallTool_session [OF c] assms)
  qed
next
  assume "session_available w s"
  then obtain c where c: "session_client w s = Some c"
    by (auto simp: session_available_client)
  show "fst (handleCallTool w s req) = Thrown code m"
    by (simp add: handleCallTool_session [OF c] assms)
next
  assume ns: "\<not> session_available w s"
  from handleCallTool_no_session [OF ns, of req]
  show "\<exists>msg. fst (handleCallTool w s req) = Returned (Text msg) True" by auto
qed

text \<open>Two calls whose handlers do the same are the same.\<close>

lemma same_dispatch_same_call:
  assumes "name req' = name req"
    and "\<And>c. dispatch w c (name req) (args_of req') = dispatch w c (name req) (args_of req)"
  shows "handleCallTool w s req' = handleCallTool w s req"
  unfolding handleCallTool_def assms(1) assms(2) by (rule refl)

text \<open>The five assignments of \<^verbatim>\<open>updateMeeting\<close>, one by one.\<close>

lemma set_summary_eq:
  "set_summary a ev =
     ev\<lparr>ev_summary := (case a of None \<Rightarrow> ev_summary ev | Some v \<Rightarrow> Some v)\<rparr>"
  by (cases a) (simp_all add: set_summary_def)

lemma set_description_eq:
  "set_description a ev =
     ev\<lparr>ev_description := (case a of None \<Rightarrow> ev_description ev | Some v \<Rightarrow> Some v)\<rparr>"
  by (cases a) (simp_all add: set_description_def)

lemma set_start_eq:
  "set_start a ev =
     (if a \<noteq> None \<and> ev_start ev = None then None
      else Some (ev\<lparr>ev_start :=
                       (case a of
                          None \<Rightarrow> ev_start ev
                        | Some v \<Rightarrow> map_option (\<lambda>t. t\<lparr>dateTime := Some v\<rparr>) (ev_start ev))\<rparr>))"
  by (cases a; cases "ev_start ev") (simp_all add: set_start_def)

lemma set_end_eq:
  "set_end a ev =
     (if a \<noteq> None \<and> ev_end ev = None then None
      else Some (ev\<lparr>ev_end :=
                       (case a of
                          None \<Rightarrow> ev_end ev
                        | Some v \<Rightarrow> map_option (\<lambda>t. t\<lparr>dateTime := Some v\<rparr>) (ev_end ev))\<rparr>))"
  by (cases a; cases "ev_end ev") (simp_all add: set_end_def)

lemma attendees_cases:
  obtains (absent) "args ''attendees'' = None" "\<not> attendees_no_array args"
    | (array) emails where "args ''attendees'' = Some (JArr emails)" "\<not> attendees_no_array args"
    | (no_array) v where "args ''attendees'' = Some v" "formatAttendees v = None"
        "attendees_no_array args"
proof (cases "args ''attendees''")
  case None
  then show ?thesis by (intro absent) (simp_all add: attendees_no_array_def)
next
  case (Some v)
  then show ?thesis
    by (cases v)
      (auto simp: attendees_no_array_def formatAttendees_def intro: array no_array)
qed

lemma applyUpdate_args:
  "applyUpdate \<lparr>ud_summary = args ''summary'', ud_description = args ''description'',
                ud_startTime = args ''start_time'', ud_endTime = args ''end_time'',
                ud_attendees = args ''attendees''\<rparr> fetched =
     (if (args ''start_time'' \<noteq> None \<and> ev_start fetched = None)
         \<or> (args ''end_time'' \<noteq> None \<and> ev_end fetched = None)
         \<or> attendees_no_array args
      then None else Some (replace_provided args fetched))"
proof (cases rule: attendees_cases [of args])
  case absent
  then show ?thesis
    by (simp add: applyUpdate_def set_summary_eq set_description_eq set_start_eq set_end_eq
        set_attendees_def replace_provided_def cong: option.case_cong)
next
  case (array emails)
  then show ?thesis
    by (simp add: applyUpdate_def set_summary_eq set_description_eq set_start_eq set_end_eq
        set_attendees_def replace_provided_def formatAttendees_def cong: option.case_cong)
next
  case (no_array v)
  then show ?thesis
    by (simp add: applyUpdate_def set_summary_eq set_description_eq set_start_eq set_end_eq
        set_attendees_def)
qed

lemma ready_calendar: "calendar ready_server = Some sample_client"
  by (simp add: ready_server_def)

lemma session_available_ready: "session_available w ready_server"
  by (simp add: session_available_def ready_server_def)

lemma missing_required_mem:
  "k = ''summary'' \<or> k = ''start_time'' \<or> k = ''end_time'' \<Longrightarrow> \<not> truthy_opt (args k) \<Longrightarrow>
     k \<in> set (missing_required (args ''summary'') (args ''start_time'') (args ''end_time''))"
  by (auto simp: missing_required_def)

lemma missing_required_omit:
  assumes "k = ''summary'' \<or> k = ''start_time'' \<or> k = ''end_time''"
    and "\<not> truthy_opt (a k)"
  shows "missing_required ((a(k := None)) ''summary'') ((a(k := None)) ''start_time'')
           ((a(k := None)) ''end_time'')
         = missing_required (a ''summary'') (a ''start_time'') (a ''end_time'')"
  using assms by (auto simp: missing_required_def)

section \<open>Facts about the sample calls\<close>

lemma sendRequest_ready:
  "getRequestMetadata w c = (Inr c, []) \<Longrightarrow> sendRequest w c op a = (a, c, [op])"
  by (simp add: sendRequest_def)

lemma sublist_mid: "sublist xs (ps @ xs @ ss)"
  by (auto simp: sublist_def)

lemma sublist_does_not_have:
  "sublist ''does not have''
     (''Error: Error getting meeting: Event with ID '' @ i
        @ '' does not have Google Meet conferencing data'')"
proof -
  have "''Error: Error getting meeting: Event with ID '' @ i
        @ '' does not have Google Meet conferencing data''
      = (''Error: Error getting meeting: Event with ID '' @ i @ '' '') @ ''does not have''
        @ '' Google Meet conferencing data''" by simp
  then show ?thesis by (metis sublist_mid)
qed

lemma sublist_failed_to_format:
  "sublist ''Failed to format''
     (''Error: Error getting meeting: Failed to format meeting data for event ID '' @ i)"
proof -
  have "''Error: Error getting meeting: Failed to format meeting data for event ID '' @ i
      = ''Error: Error getting meeting: '' @ ''Failed to format''
        @ ('' meeting data for event ID '' @ i)" by simp
  then show ?thesis by (metis sublist_mid)
qed

text \<open>Create and update through a client whose token is not expiring.\<close>

lemma metadata_ready:
  "truthy_opt (access_token (client_credentials c)) \<Longrightarrow>
   \<not> isTokenExpiring (client_credentials c) (now_request w) \<Longrightarrow>
   getRequestMetadata w c = (Inr c, [])"
  by (simp add: getRequestMetadata_def Let_def)

lemma createMeeting_ready_effects:
  "getRequestMetadata w c = (Inr c, []) \<Longrightarrow>
   formatAttendees (undefined_or at (JArr [])) = Some fa \<Longrightarrow>
   snd (createMeeting w c su st en de at tz) =
     (c, [EventsInsert (newEvent w su st en (undefined_or de (JStr [])) fa
                          (undefined_or tz (JStr ''UTC'')))])"
  by (simp add: createMeeting_def sendRequest_ready Let_def split: sum.splits option.splits)

lemma updateMeeting_ready_effects:
  "getRequestMetadata w c = (Inr c, []) \<Longrightarrow> events_get w False i = Inr fetched \<Longrightarrow>
   applyUpdate ud fetched = Some ev \<Longrightarrow>
   snd (updateMeeting w c i ud) = (c, [EventsGet False i, EventsUpdate i ev])"
  by (simp add: updateMeeting_def sendRequest_ready split: sum.splits option.splits)

section \<open>Facts about the session\<close>

lemma initialize_loaded:
  assumes "ReadToken \<in> set (snd (initialize w))" and "token_file w = Some tok"
  shows "needs_refresh tok (now_initialize w) \<Longrightarrow>
           initialize w = (Inl no_valid_credentials,
                           [ReadCredentials, ReadToken, RefreshToken (refresh_token tok)])"
    and "\<not> needs_refresh tok (now_initialize w) \<Longrightarrow>
           snd (initialize w) = [ReadCredentials, ReadToken]
           \<and> (\<exists>client. fst (initialize w) = Inr client \<and> oc_credentials client = Some tok)"
  using assms
  by (auto simp: initialize_def Let_def split: sum.splits option.splits if_splits)











section \<open>The meeting mapper\<close>

text \<open>
  C1, as the code has it. \<^verbatim>\<open>_formatMeetingData\<close> returns null exactly when the event has
  no conferencing data, or its conferencing data has no entry point of type "video", or
  the first such entry point has a \<^verbatim>\<open>uri\<close> that is missing or falsy (the guard
  \<^verbatim>\<open>if (!meetLink)\<close>). Otherwise it returns a meeting whose \<^verbatim>\<open>meet_link\<close> is the
  \<^verbatim>\<open>uri\<close> of the first video entry point, whose summary and description are the event's
  or \<open>""\<close> when absent, and whose attendees are the event's attendees, one for one and in
  the same order.
\<close>

theorem formatMeetingData_first_video_uri:
  "(formatMeetingData ev = None \<longleftrightarrow>
      ev_conferenceData ev = None \<or> \<not> has_video_entry_point ev
      \<or> (\<exists>ep. first_video ev = Some ep \<and> \<not> truthy_opt (uri ep)))
   \<and> (\<forall>m. formatMeetingData ev = Some m \<longrightarrow>
         (\<exists>ep. first_video ev = Some ep \<and> is_video ep \<and> ep \<in> set (entry_points_of ev)
               \<and> uri ep = Some (meet_link m))
         \<and> truthy (meet_link m)
         \<and> mt_summary m = or_default (ev_summary ev) (JStr [])
         \<and> mt_description m = or_default (ev_description ev) (JStr [])
         \<and> (ev_summary ev = None \<longrightarrow> mt_summary m = JStr [])
         \<and> (ev_description ev = None \<longrightarrow> mt_description m = JStr [])
         \<and> mt_attendees m =
             map (\<lambda>a. \<lparr>email = ea_email a, response_status = ea_responseStatus a\<rparr>)
               (list_or_empty (ev_attendees ev)))"
proof (intro conjI allI impI)
  show "formatMeetingData ev = None \<longleftrightarrow>
      ev_conferenceData ev = None \<or> \<not> has_video_entry_point ev
      \<or> (\<exists>ep. first_video ev = Some ep \<and> \<not> truthy_opt (uri ep))"
    using no_conf_no_video [of ev]
    by (auto simp: formatMeetingData_None_iff has_video_entry_point_def list_ex_find
        first_video_def split: option.splits)
next
  fix m assume m: "formatMeetingData ev = Some m"
  then obtain cd link where cd: "ev_conferenceData ev = Some cd"
    and link: "findMeetLink (list_or_empty (entryPoints cd)) = Some link" "truthy link"
    and m_eq: "m = \<lparr>mt_id = ev_id ev,
                     mt_summary = or_default (ev_summary ev) (JStr []),
                     mt_description = or_default (ev_description ev) (JStr []),
                     meet_link = link,
                     start_time = time_of (ev_start ev),
                     end_time = time_of (ev_end ev),
                     mt_attendees = map formatAttendee (list_or_empty (ev_attendees ev)),
                     mt_creator = email_of (ev_creator ev),
                     mt_organizer = email_of (ev_organizer ev),
                     mt_created = ev_created ev,
                     mt_updated = ev_updated ev\<rparr>"
    by (auto simp: formatMeetingData_def split: option.splits if_splits)
  from link cd obtain ep where ep: "first_video ev = Some ep" "uri ep = Some link"
    by (auto simp: findMeetLink_find first_video_def entry_points_of_def split: option.splits)
  from ep(1) have "is_video ep \<and> ep \<in> set (entry_points_of ev)"
    unfolding first_video_def by (auto simp: find_Some_iff)
  with ep m_eq
  show "\<exists>ep. first_video ev = Some ep \<and> is_video ep \<and> ep \<in> set (entry_points_of ev)
               \<and> uri ep = Some (meet_link m)" by auto
  show "truthy (meet_link m)" using m_eq link by simp
  show "mt_summary m = or_default (ev_summary ev) (JStr [])" using m_eq by simp
  show "mt_description m = or_default (ev_description ev) (JStr [])" using m_eq by simp
  show "mt_summary m = JStr []" if "ev_summary ev = None"
    using m_eq that by (simp add: or_default_def)
  show "mt_description m = JStr []" if "ev_description ev = None"
    using m_eq that by (simp add: or_default_def)
  show "mt_attendees m =
             map (\<lambda>a. \<lparr>email = ea_email a, response_status = ea_responseStatus a\<rparr>)
               (list_or_empty (ev_attendees ev))"
    using m_eq by (simp add: formatAttendee_def [abs_def])
qed

text \<open>The sample event with a phone and a video entry point maps to a meeting.\<close>

theorem formatMeetingData_first_video_uri_witness:
  "\<exists>m. formatMeetingData video_event = Some m
      \<and> meet_link m = JStr ''https://meet.example/abc''
      \<and> mt_summary m = JStr []
      \<and> mt_description m = JStr ''weekly''
      \<and> mt_attendees m =
          [\<lparr>email = Some (JStr ''a@x.com''), response_status = Some (JStr ''accepted'')\<rparr>,
           \<lparr>email = Some (JStr ''b@x.com''), response_status = None\<rparr>]"
proof -
  have "formatMeetingData video_event \<noteq> None"
    by (simp add: formatMeetingData_None_iff first_video_video_event video_entry_def)
  then obtain m where m: "formatMeetingData video_event = Some m" by auto
  have s: "ev_summary video_event = None" "ev_description video_event = Some (JStr ''weekly'')"
    "list_or_empty (ev_attendees video_event) =
       [\<lparr>ea_email = Some (JStr ''a@x.com''), ea_responseStatus = Some (JStr ''accepted'')\<rparr>,
        \<lparr>ea_email = Some (JStr ''b@x.com''), ea_responseStatus = None\<rparr>]"
    by (simp_all add: video_event_def empty_event_def list_or_empty_def)
  from formatMeetingData_first_video_uri [of video_event] m
  have "(\<exists>ep. first_video video_event = Some ep \<and> uri ep = Some (meet_link m))
      \<and> mt_summary m = JStr []
      \<and> mt_description m = or_default (ev_description video_event) (JStr [])
      \<and> mt_attendees m =
             map (\<lambda>a. \<lparr>email = ea_email a, response_status = ea_responseStatus a\<rparr>)
               (list_or_empty (ev_attendees video_event))"
    using s(1) by blast
  then show ?thesis
    using m by (simp add: s first_video_video_event video_entry_def or_default_def)
qed

text \<open>
  An event whose only entry point is of type "video" with an empty \<^verbatim>\<open>uri\<close> has
  conferencing data and a video entry point, and still maps to null.
\<close>

theorem formatMeetingData_empty_uri_counterexample:
  "ev_conferenceData
      (empty_event\<lparr>ev_conferenceData :=
         Some \<lparr>entryPoints = Some [\<lparr>entryPointType = Some (JStr ''video''), uri = Some (JStr [])\<rparr>],
               createRequest = None\<rparr>\<rparr>) \<noteq> None
   \<and> has_video_entry_point
      (empty_event\<lparr>ev_conferenceData :=
         Some \<lparr>entryPoints = Some [\<lparr>entryPointType = Some (JStr ''video''), uri = Some (JStr [])\<rparr>],
               createRequest = None\<rparr>\<rparr>)
   \<and> formatMeetingData
      (empty_event\<lparr>ev_conferenceData :=
         Some \<lparr>entryPoints = Some [\<lparr>entryPointType = Some (JStr ''video''), uri = Some (JStr [])\<rparr>],
               createRequest = None\<rparr>\<rparr>) = None"
  by (simp add: empty_event_def has_video_entry_point_def entry_points_of_def list_or_empty_def
      is_video_def formatMeetingData_def)

section \<open>Listing\<close>

text \<open>
  C2. Whatever list of events the provider returns to \<^verbatim>\<open>list_meetings\<close>, the call
  answers with a success envelope, never an error, holding the meetings that the mapper
  makes of the events that have a "video" entry point, in the provider's order. Events
  without conferencing data, events without a video entry point and events that map to
  null leave no entry.
\<close>

theorem list_meetings_video_only:
  "name req = ''list_meetings'' \<Longrightarrow>
   EventsList p \<in> set (snd (snd (handleCallTool w s req))) \<Longrightarrow>
   events_list w p = Inr items \<Longrightarrow>
   fst (handleCallTool w s req) =
     Returned (MeetingsJson
       (List.map_filter formatMeetingData
          (filter has_video_entry_point (list_or_empty items)))) False
   \<and> List.map_filter formatMeetingData (filter has_video_entry_point (list_or_empty items))
       = List.map_filter formatMeetingData
           (filter (\<lambda>ev. ev_conferenceData ev \<noteq> None) (list_or_empty items))"
proof -
  assume n: "name req = ''list_meetings''"
    and e: "EventsList p \<in> set (snd (snd (handleCallTool w s req)))"
    and r: "events_list w p = Inr items"
  have pe: "is_provider_op (EventsList p)" by simp
  from provider_op_in_call [OF e pe] obtain c where c: "session_client w s = Some c"
    and d: "EventsList p \<in> set (snd (snd (dispatch w c (name req) (args_of req))))" by blast
  let ?a = "or_default (args_of req ''max_results'') (JNum 10)"
  let ?b = "or_default (args_of req ''time_min'') JNull"
  let ?d = "or_default (args_of req ''time_max'') JNull"
  have disp: "dispatch w c (name req) (args_of req) = finish MeetingsJson (listMeetings w c ?a ?b ?d)"
    unfolding n by (rule dispatch_list)
  from d have m: "EventsList p \<in> set (snd (snd (listMeetings w c ?a ?b ?d)))"
    unfolding disp by (simp add: finish_simps)
  have res: "fst (listMeetings w c ?a ?b ?d) = Inr (collectMeetings (list_or_empty items))"
  proof (cases rule: listMeetings_cases [of w c ?a ?b ?d])
    case (denied msg effs)
    with m refresh_not_provider [OF denied(2), of "EventsList p"] show ?thesis by simp
  next
    case (sent c' effs)
    with m refresh_not_provider [OF sent(2), of "EventsList p"]
    have "p = listParams w ?a ?b ?d" by auto
    with sent r show ?thesis by simp
  qed
  have "fst (handleCallTool w s req) =
     Returned (MeetingsJson (collectMeetings (list_or_empty items))) False"
    unfolding handleCallTool_session [OF c] disp by (simp add: finish_simps res)
  then show ?thesis
    unfolding collectMeetings_map_filter map_filter_video map_filter_conference by simp
qed

text \<open>
  The provider lists a phone-only event, the sample video event and an event without
  conferencing data: the answer holds the video event's meeting alone.
\<close>

theorem list_meetings_video_only_witness:
  "name \<lparr>name = ''list_meetings'', arguments = None\<rparr> = ''list_meetings''
   \<and> EventsList (listParams sample_env (JNum 10) JNull JNull)
       \<in> set (snd (snd (handleCallTool sample_env ready_server
                          \<lparr>name = ''list_meetings'', arguments = None\<rparr>)))
   \<and> events_list sample_env (listParams sample_env (JNum 10) JNull JNull)
       = Inr (Some [phone_event, video_event, empty_event])
   \<and> fst (handleCallTool sample_env ready_server \<lparr>name = ''list_meetings'', arguments = None\<rparr>)
       = Returned (MeetingsJson (List.map_filter formatMeetingData [video_event])) False"
proof -
  let ?req = "\<lparr>name = ''list_meetings'', arguments = None\<rparr>"
  let ?p = "listParams sample_env (JNum 10) JNull JNull"
  have n: "name ?req = ''list_meetings''" by simp
  have lm: "listMeetings sample_env sample_client (JNum 10) JNull JNull
      = (Inr (collectMeetings [phone_event, video_event, empty_event]), sample_client,
         [EventsList ?p])"
    by (simp add: listMeetings_def Let_def
        sendRequest_ready [OF metadata_sample [OF now_request_sample]])
      (simp add: sample_env_def list_or_empty_def)
  have e: "EventsList ?p \<in> set (snd (snd (handleCallTool sample_env ready_server ?req)))"
    by (simp add: handleCallTool_session [OF session_ready] dispatch_list args_of_def
        or_default_def finish_simps lm)
  have r: "events_list sample_env ?p = Inr (Some [phone_event, video_event, empty_event])"
    by (simp add: sample_env_def)
  show ?thesis
    using e r list_meetings_video_only [OF n e r]
    by (simp add: list_or_empty_def has_video_samples)
qed

section \<open>Direct lookup\<close>

text \<open>
  C3. When \<^verbatim>\<open>get_meeting\<close> has fetched an event that has no conferencing data, or has
  no "video" entry point, or maps to null, the call answers with an envelope whose error
  flag is set and whose message says "does not have Google Meet conferencing data"
  (no conferencing data) or "Failed to format meeting data" (mapped to null); it is never
  a successful answer.
\<close>

theorem get_meeting_without_video_is_error:
  assumes "name req = ''get_meeting''"
    and "EventsGet c mid \<in> set (snd (snd (handleCallTool w s req)))"
    and "events_get w c mid = Inr ev"
    and "ev_conferenceData ev = None \<or> \<not> has_video_entry_point ev \<or> formatMeetingData ev = None"
  shows "\<exists>msg. fst (handleCallTool w s req) = Returned (Text msg) True
           \<and> msg = ''Error: Error getting meeting: ''
                @ (if ev_conferenceData ev = None
                   then ''Event with ID '' @ js_to_string mid
                          @ '' does not have Google Meet conferencing data''
                   else ''Failed to format meeting data for event ID '' @ js_to_string mid)
           \<and> (if ev_conferenceData ev = None then sublist ''does not have'' msg
               else sublist ''Failed to format'' msg)"
proof -
  have pe: "is_provider_op (EventsGet c mid)" by simp
  from provider_op_in_call [OF assms(2) pe] obtain cl where cl: "session_client w s = Some cl"
    and d: "EventsGet c mid \<in> set (snd (snd (dispatch w cl (name req) (args_of req))))"
    by blast
  have none: "formatMeetingData ev = None"
    using assms(4) no_video_format_None [of ev] by (auto simp: formatMeetingData_def)
  show ?thesis
  proof (cases rule: dispatch_cases [of "name req" "args_of req" w cl])
    case (thrown code m)
    with d show ?thesis by simp
  next
    case list_meetings
    with assms(1) show ?thesis by simp
  next
    case create_meeting
    with assms(1) show ?thesis by simp
  next
    case (update_meeting i)
    with assms(1) show ?thesis by simp
  next
    case (delete_meeting i)
    with assms(1) show ?thesis by simp
  next
    case (get_meeting i)
    from d have m: "EventsGet c mid \<in> set (snd (snd (getMeeting w cl i)))"
      unfolding get_meeting(5) by (simp add: finish_simps)
    have res: "c \<and> mid = i \<and> fst (getMeeting w cl i) =
        Inl (''Error getting meeting: ''
                @ (if ev_conferenceData ev = None
                   then ''Event with ID '' @ js_to_string mid
                          @ '' does not have Google Meet conferencing data''
                   else ''Failed to format meeting data for event ID '' @ js_to_string mid))"
    proof (cases rule: getMeeting_cases [of w cl i])
      case (denied msg effs)
      with m refresh_not_provider [OF denied(2), of "EventsGet c mid"] show ?thesis by simp
    next
      case (sent c' effs)
      with m refresh_not_provider [OF sent(2), of "EventsGet c mid"]
      have cm: "c" "mid = i" by auto
      with assms(3) have "events_get w True i = Inr ev" by simp
      with sent cm none show ?thesis by simp
    qed
    have "fst (handleCallTool w s req) =
        Returned (Text (''Error: '' @ ''Error getting meeting: ''
                @ (if ev_conferenceData ev = None
                   then ''Event with ID '' @ js_to_string mid
                          @ '' does not have Google Meet conferencing data''
                   else ''Failed to format meeting data for event ID '' @ js_to_string mid))) True"
      unfolding handleCallTool_session [OF cl] get_meeting(5) by (simp add: finish_simps res)
    then show ?thesis
      using sublist_does_not_have [of "js_to_string mid"]
        sublist_failed_to_format [of "js_to_string mid"]
      by simp
  qed
qed

text \<open>The provider answers the lookup with the phone-only event.\<close>

theorem get_meeting_without_video_is_error_witness:
  "fst (handleCallTool (sample_env\<lparr>events_get := (\<lambda>c i. Inr phone_event)\<rparr>) ready_server
          \<lparr>name = ''get_meeting'', arguments = Some [''meeting_id'' \<mapsto> JStr ''evt2'']\<rparr>)
     = Returned (Text ''Error: Error getting meeting: Failed to format meeting data for event ID evt2'') True"
proof -
  let ?w = "sample_env\<lparr>events_get := (\<lambda>c i. Inr phone_event)\<rparr>"
  let ?req = "\<lparr>name = ''get_meeting'', arguments = Some [''meeting_id'' \<mapsto> JStr ''evt2'']\<rparr>"
  have n: "name ?req = ''get_meeting''" by simp
  have nr: "now_request ?w = 1000" by (simp add: sample_env_def)
  have gm: "snd (snd (getMeeting ?w sample_client (JStr ''evt2''))) = [EventsGet True (JStr ''evt2'')]"
    by (simp add: getMeeting_def sendRequest_ready [OF metadata_sample [OF nr]]
        format_phone_event conference_samples)
  have e: "EventsGet True (JStr ''evt2'') \<in> set (snd (snd (handleCallTool ?w ready_server ?req)))"
    by (simp add: handleCallTool_session [OF session_ready] dispatch_get args_of_def
        finish_simps gm)
  have r: "events_get ?w True (JStr ''evt2'') = Inr phone_event" by simp
  have h: "ev_conferenceData phone_event = None \<or> \<not> has_video_entry_point phone_event
      \<or> formatMeetingData phone_event = None"
    by (simp add: has_video_samples)
  have cd: "ev_conferenceData phone_event \<noteq> None" by (simp add: phone_event_def empty_event_def)
  show ?thesis
    using get_meeting_without_video_is_error [OF n e r h] cd
    by simp
qed

section \<open>Create and update\<close>

text \<open>
  C8. When the provider answers the insert of \<^verbatim>\<open>create_meeting\<close>, or the update of
  \<^verbatim>\<open>update_meeting\<close>, with an event that has no conferencing data or no "video" entry
  point, the call answers with an error-flagged envelope, not with a meeting, although
  the insert or update has been performed upstream.
\<close>

theorem create_update_without_video_is_error:
  "(EventsInsert p \<in> set (snd (snd (handleCallTool w s req)))
      \<and> events_insert w p = Inr ev
      \<and> (ev_conferenceData ev = None \<or> \<not> has_video_entry_point ev)
    \<longrightarrow> name req = ''create_meeting''
        \<and> fst (handleCallTool w s req) =
            Returned (Text (''Error: Error creating meeting: ''
                  @ (if ev_conferenceData ev = None
                     then ''Failed to create Google Meet conferencing data''
                     else ''Failed to format meeting data for newly created event''))) True)
   \<and> (EventsUpdate i p \<in> set (snd (snd (handleCallTool w s req)))
      \<and> events_update w i p = Inr ev
      \<and> (ev_conferenceData ev = None \<or> \<not> has_video_entry_point ev)
    \<longrightarrow> name req = ''update_meeting''
        \<and> fst (handleCallTool w s req) =
            Returned (Text (''Error: Error updating meeting: ''
                  @ (if ev_conferenceData ev = None
                     then ''Updated event does not have Google Meet conferencing data''
                     else ''Failed to format meeting data for updated event''))) True)"
proof (rule conjI; rule impI; elim conjE)
  assume e: "EventsInsert p \<in> set (snd (snd (handleCallTool w s req)))"
    and r: "events_insert w p = Inr ev"
    and v: "ev_conferenceData ev = None \<or> \<not> has_video_entry_point ev"
  from v have none: "formatMeetingData ev = None"
    using no_video_format_None no_conf_no_video by blast
  have pe: "is_provider_op (EventsInsert p)" by simp
  from provider_op_in_call [OF e pe] obtain c where c: "session_client w s = Some c"
    and d: "EventsInsert p \<in> set (snd (snd (dispatch w c (name req) (args_of req))))" by blast
  from dispatch_tool_of_op [OF d pe] have n: "name req = ''create_meeting''" by simp
  let ?cm = "createMeeting w c (args_of req ''summary'')
      (args_of req ''start_time'') (args_of req ''end_time'')
              (Some (undefined_or (args_of req ''description'') (JStr [])))
              (Some (undefined_or (args_of req ''attendees'') (JArr [])))
              (Some (undefined_or (args_of req ''time_zone'') (JStr ''UTC'')))"
  have disp: "dispatch w c (name req) (args_of req) = finish MeetingJson ?cm"
  proof (cases rule: dispatch_cases [of "name req" "args_of req" w c])
    case (thrown code m)
    with d show ?thesis by simp
  qed (use n in simp_all)
  from d have m: "EventsInsert p \<in> set (snd (snd ?cm))"
    unfolding disp by (simp add: finish_simps)
  have res: "fst ?cm =
      Inl (''Error creating meeting: ''
                  @ (if ev_conferenceData ev = None
                     then ''Failed to create Google Meet conferencing data''
                     else ''Failed to format meeting data for newly created event''))"
  proof (cases rule: createMeeting_cases
      [of "Some (undefined_or (args_of req ''attendees'') (JArr []))" w c
        "args_of req ''summary''" "args_of req ''start_time''" "args_of req ''end_time''"
        "Some (undefined_or (args_of req ''description'') (JStr []))"
        "Some (undefined_or (args_of req ''time_zone'') (JStr ''UTC''))"])
    case type_error
    with m show ?thesis by simp
  next
    case (denied fa msg effs)
    with m refresh_not_provider [OF denied(3), of "EventsInsert p"] show ?thesis by simp
  next
    case (sent fa c' effs)
    with m refresh_not_provider [OF sent(3), of "EventsInsert p"]
    have "events_insert w (newEvent w (args_of req ''summary'') (args_of req ''start_time'')
        (args_of req ''end_time'')
        (undefined_or (Some (undefined_or (args_of req ''description'') (JStr []))) (JStr []))
        fa (undefined_or (Some (undefined_or (args_of req ''time_zone'') (JStr ''UTC'')))
              (JStr ''UTC''))) = Inr ev"
      using r by auto
    with sent none show ?thesis by simp
  qed
  show "name req = ''create_meeting''
        \<and> fst (handleCallTool w s req) =
            Returned (Text (''Error: Error creating meeting: ''
                  @ (if ev_conferenceData ev = None
                     then ''Failed to create Google Meet conferencing data''
                     else ''Failed to format meeting data for newly created event''))) True"
    using n unfolding handleCallTool_session [OF c] disp by (simp add: finish_simps res)
next
  assume e: "EventsUpdate i p \<in> set (snd (snd (handleCallTool w s req)))"
    and r: "events_update w i p = Inr ev"
    and v: "ev_conferenceData ev = None \<or> \<not> has_video_entry_point ev"
  from v have none: "formatMeetingData ev = None"
    using no_video_format_None no_conf_no_video by blast
  have pe: "is_provider_op (EventsUpdate i p)" by simp
  from provider_op_in_call [OF e pe] obtain c where c: "session_client w s = Some c"
    and d: "EventsUpdate i p \<in> set (snd (snd (dispatch w c (name req) (args_of req))))" by blast
  from dispatch_tool_of_op [OF d pe] have n: "name req = ''update_meeting''" by simp
  let ?ud = "\<lparr>ud_summary = args_of req ''summary'',
              ud_description = args_of req ''description'',
              ud_startTime = args_of req ''start_time'',
              ud_endTime = args_of req ''end_time'',
              ud_attendees = args_of req ''attendees''\<rparr>"
  obtain j where disp: "dispatch w c (name req) (args_of req)
      = finish MeetingJson (updateMeeting w c j ?ud)"
  proof (cases rule: dispatch_cases [of "name req" "args_of req" w c])
    case (thrown code m)
    with d show ?thesis by simp
  next
    case (update_meeting j)
    then show ?thesis using that by blast
  qed (use n in simp_all)
  from d have m: "EventsUpdate i p \<in> set (snd (snd (updateMeeting w c j ?ud)))"
    unfolding disp by (simp add: finish_simps)
  have res: "fst (updateMeeting w c j ?ud) =
      Inl (''Error updating meeting: ''
                  @ (if ev_conferenceData ev = None
                     then ''Updated event does not have Google Meet conferencing data''
                     else ''Failed to format meeting data for updated event''))"
  proof (cases rule: updateMeeting_cases [of w c j ?ud])
    case (denied msg effs)
    with m refresh_not_provider [OF denied(2), of "EventsUpdate i p"] show ?thesis by simp
  next
    case (fetch_failed c1 effs1 msg)
    with m refresh_not_provider [OF fetch_failed(2), of "EventsUpdate i p"]
    show ?thesis by simp
  next
    case (type_error c1 effs1 fetched)
    with m refresh_not_provider [OF type_error(2), of "EventsUpdate i p"]
    show ?thesis by simp
  next
    case (denied2 c1 effs1 fetched ev' msg effs2)
    with m refresh_not_provider [OF denied2(2), of "EventsUpdate i p"]
      refresh_not_provider [OF denied2(6), of "EventsUpdate i p"]
    show ?thesis by auto
  next
    case (written c1 effs1 fetched ev' c2 effs2)
    with m refresh_not_provider [OF written(2), of "EventsUpdate i p"]
      refresh_not_provider [OF written(6), of "EventsUpdate i p"]
    have "j = i" "ev' = p" by auto
    with written r none show ?thesis by simp
  qed
  show "name req = ''update_meeting''
        \<and> fst (handleCallTool w s req) =
            Returned (Text (''Error: Error updating meeting: ''
                  @ (if ev_conferenceData ev = None
                     then ''Updated event does not have Google Meet conferencing data''
                     else ''Failed to format meeting data for updated event''))) True"
    using n unfolding handleCallTool_session [OF c] disp by (simp add: finish_simps res)
qed

text \<open>
  An insert answered with the phone-only event, and an update answered with an event
  without conferencing data.
\<close>

theorem create_update_without_video_is_error_witness:
  "fst (handleCallTool (sample_env\<lparr>events_insert := (\<lambda>e. Inr phone_event)\<rparr>) ready_server
          \<lparr>name = ''create_meeting'',
           arguments = Some [''summary'' \<mapsto> JStr ''Standup'',
                             ''start_time'' \<mapsto> JStr ''2025-01-10T09:00:00Z'',
                             ''end_time'' \<mapsto> JStr ''2025-01-10T09:30:00Z'']\<rparr>)
     = Returned (Text ''Error: Error creating meeting: Failed to format meeting data for newly created event'') True
   \<and> fst (handleCallTool (sample_env\<lparr>events_update := (\<lambda>i e. Inr empty_event)\<rparr>) ready_server
          \<lparr>name = ''update_meeting'',
           arguments = Some [''meeting_id'' \<mapsto> JStr ''evt1'',
                             ''summary'' \<mapsto> JStr ''Retro'']\<rparr>)
     = Returned (Text ''Error: Error updating meeting: Updated event does not have Google Meet conferencing data'') True"
proof -
  let ?w1 = "sample_env\<lparr>events_insert := (\<lambda>e. Inr phone_event)\<rparr>"
  let ?a1 = "[''summary'' \<mapsto> JStr ''Standup'',
                             ''start_time'' \<mapsto> JStr ''2025-01-10T09:00:00Z'',
                             ''end_time'' \<mapsto> JStr ''2025-01-10T09:30:00Z'']"
  let ?r1 = "\<lparr>name = ''create_meeting'', arguments = Some ?a1\<rparr>"
  let ?p1 = "newEvent ?w1 (Some (JStr ''Standup'')) (Some (JStr ''2025-01-10T09:00:00Z''))
               (Some (JStr ''2025-01-10T09:30:00Z'')) (JStr []) [] (JStr ''UTC'')"
  let ?w2 = "sample_env\<lparr>events_update := (\<lambda>i e. Inr empty_event)\<rparr>"
  let ?a2 = "[''meeting_id'' \<mapsto> JStr ''evt1'', ''summary'' \<mapsto> JStr ''Retro'']"
  let ?r2 = "\<lparr>name = ''update_meeting'', arguments = Some ?a2\<rparr>"
  let ?p2 = "video_event\<lparr>ev_summary := Some (JStr ''Retro'')\<rparr>"
  have n1: "now_request ?w1 = 1000" and n2: "now_request ?w2 = 1000"
    by (simp_all add: sample_env_def)
  have fa: "formatAttendees (undefined_or (Some (JArr [])) (JArr [])) = Some []"
    by (simp add: formatAttendees_def undefined_or_def)
  have e1: "EventsInsert ?p1 \<in> set (snd (snd (handleCallTool ?w1 ready_server ?r1)))"
    by (simp add: handleCallTool_session [OF session_ready] dispatch_create args_of_def
        finish_simps createMeeting_ready_effects [OF metadata_sample [OF n1] fa]
        undefined_or_def ready_calendar)
  have i1: "events_insert ?w1 ?p1 = Inr phone_event" by simp
  have v1: "ev_conferenceData phone_event = None \<or> \<not> has_video_entry_point phone_event"
    by (simp add: has_video_samples)
  have g2: "events_get ?w2 False (JStr ''evt1'') = Inr video_event"
    by (simp add: sample_env_def)
  have a2: "applyUpdate \<lparr>ud_summary = ?a2 ''summary'', ud_description = ?a2 ''description'',
      ud_startTime = ?a2 ''start_time'', ud_endTime = ?a2 ''end_time'',
      ud_attendees = ?a2 ''attendees''\<rparr> video_event = Some ?p2"
    by (simp add: applyUpdate_def set_summary_def set_description_def set_start_def
        set_end_def set_attendees_def)
  have i: "?a2 ''meeting_id'' = Some (JStr ''evt1'')" "truthy (JStr ''evt1'')" by simp_all
  have nf: "\<not> (?a2 ''summary'' = None \<and> ?a2 ''description'' = None
       \<and> ?a2 ''start_time'' = None \<and> ?a2 ''end_time'' = None \<and> ?a2 ''attendees'' = None)"
    by simp
  have ar: "args_of ?r2 = ?a2" by (simp add: args_of_def)
  have e2: "EventsUpdate (JStr ''evt1'') ?p2
      \<in> set (snd (snd (handleCallTool ?w2 ready_server ?r2)))"
    unfolding handleCallTool_session [OF session_ready] ar
    by (simp only: request.simps dispatch_update [OF i nf] finish_simps
        updateMeeting_ready_effects [OF metadata_sample [OF n2] g2 a2])
      simp
  have i2: "events_update ?w2 (JStr ''evt1'') ?p2 = Inr empty_event" by simp
  have v2: "ev_conferenceData empty_event = None \<or> \<not> has_video_entry_point empty_event"
    by (simp add: has_video_samples)
  from create_update_without_video_is_error
    [where p = ?p1 and w = ?w1 and s = ready_server and req = ?r1 and ev = phone_event]
    create_update_without_video_is_error
    [where p = ?p2 and w = ?w2 and s = ready_server and req = ?r2 and ev = empty_event
       and i = "JStr ''evt1''"]
    e1 i1 v1 e2 i2 v2
  show ?thesis
    by (simp add: conference_samples)
qed

section \<open>Read-modify-write\<close>

text \<open>
  C7. The event that \<^verbatim>\<open>update_meeting\<close> writes back to the provider is the event it has
  just fetched with exactly the provided fields replaced. A field that is omitted keeps
  the fetched value. A field that is provided replaces it, also when it is the empty
  string: a provided summary or description becomes the event's, a provided start or end
  time becomes the \<^verbatim>\<open>dateTime\<close> of the event's start or end, provided attendees become
  the event's attendees, one \<^verbatim>\<open>{email}\<close> entry for each address, in order. Nothing
  else of the event changes. The fetch comes before the write, with no operation in
  between but a token refresh of the OAuth2 client.

  The write does happen when the call has a session whose token is not expiring, a
  meeting id, at least one field, the fetch succeeds, the fetched event has the
  \<^verbatim>\<open>start\<close> or \<^verbatim>\<open>end\<close> object that is to be changed, and the attendees, when given,
  are an array.
\<close>

theorem update_meeting_replaces_provided_fields:
  "(EventsUpdate i p \<in> set (snd (snd (handleCallTool w s req))) \<longrightarrow>
      (\<exists>fetched pre mid.
          events_get w False i = Inr fetched
        \<and> args_of req ''meeting_id'' = Some i
        \<and> snd (snd (handleCallTool w s req))
            = pre @ [EventsGet False i] @ mid @ [EventsUpdate i p]
        \<and> list_all is_refresh mid
        \<and> p = replace_provided (args_of req) fetched
        \<and> (args_of req ''summary'' = None \<longrightarrow> ev_summary p = ev_summary fetched)
        \<and> (args_of req ''description'' = None \<longrightarrow> ev_description p = ev_description fetched)
        \<and> (args_of req ''start_time'' = None \<longrightarrow> ev_start p = ev_start fetched)
        \<and> (args_of req ''end_time'' = None \<longrightarrow> ev_end p = ev_end fetched)
        \<and> (args_of req ''attendees'' = None \<longrightarrow> ev_attendees p = ev_attendees fetched)
        \<and> (\<forall>v. args_of req ''summary'' = Some v \<longrightarrow> ev_summary p = Some v)
        \<and> (\<forall>v. args_of req ''description'' = Some v \<longrightarrow> ev_description p = Some v)
        \<and> (args_of req ''description'' = Some (JStr []) \<longrightarrow> ev_description p = Some (JStr []))
        \<and> (\<forall>v. args_of req ''start_time'' = Some v \<longrightarrow>
              (\<exists>t. ev_start fetched = Some t \<and> ev_start p = Some (t\<lparr>dateTime := Some v\<rparr>)))
        \<and> (\<forall>v. args_of req ''end_time'' = Some v \<longrightarrow>
              (\<exists>t. ev_end fetched = Some t \<and> ev_end p = Some (t\<lparr>dateTime := Some v\<rparr>)))
        \<and> (\<forall>v. args_of req ''attendees'' = Some v \<longrightarrow>
              (\<exists>emails. v = JArr emails
                 \<and> ev_attendees p =
                     Some (map (\<lambda>e. \<lparr>ea_email = Some e, ea_responseStatus = None\<rparr>) emails)))
        \<and> ev_id p = ev_id fetched \<and> ev_conferenceData p = ev_conferenceData fetched
        \<and> ev_creator p = ev_creator fetched \<and> ev_organizer p = ev_organizer fetched
        \<and> ev_created p = ev_created fetched \<and> ev_updated p = ev_updated fetched
        \<and> ev_other p = ev_other fetched))
   \<and> (session_client w s = Some c
        \<and> truthy_opt (access_token (client_credentials c))
        \<and> \<not> isTokenExpiring (client_credentials c) (now_request w)
        \<and> name req = ''update_meeting''
        \<and> args_of req ''meeting_id'' = Some i \<and> truthy i
        \<and> \<not> list_all (\<lambda>k. args_of req k = None) updatable_fields
        \<and> events_get w False i = Inr fetched
        \<and> (args_of req ''start_time'' \<noteq> None \<longrightarrow> ev_start fetched \<noteq> None)
        \<and> (args_of req ''end_time'' \<noteq> None \<longrightarrow> ev_end fetched \<noteq> None)
        \<and> (\<forall>v. args_of req ''attendees'' = Some v \<longrightarrow> (\<exists>emails. v = JArr emails))
      \<longrightarrow> EventsUpdate i (replace_provided (args_of req) fetched)
            \<in> set (snd (snd (handleCallTool w s req))))"
proof (rule conjI; rule impI)
  assume e: "EventsUpdate i p \<in> set (snd (snd (handleCallTool w s req)))"
  have pe: "is_provider_op (EventsUpdate i p)" by simp
  from provider_op_in_call [OF e pe] obtain c where c: "session_client w s = Some c"
    and d: "EventsUpdate i p \<in> set (snd (snd (dispatch w c (name req) (args_of req))))" by blast
  from dispatch_tool_of_op [OF d pe] have n: "name req = ''update_meeting''" by simp
  let ?ud = "\<lparr>ud_summary = args_of req ''summary'',
              ud_description = args_of req ''description'',
              ud_startTime = args_of req ''start_time'',
              ud_endTime = args_of req ''end_time'',
              ud_attendees = args_of req ''attendees''\<rparr>"
  obtain j where mj: "args_of req ''meeting_id'' = Some j"
    and disp: "dispatch w c (name req) (args_of req)
      = finish MeetingJson (updateMeeting w c j ?ud)"
  proof (cases rule: dispatch_cases [of "name req" "args_of req" w c])
    case (thrown code m)
    with d show ?thesis by simp
  next
    case (update_meeting j)
    then show ?thesis using that by blast
  qed (use n in simp_all)
  from d have m: "EventsUpdate i p \<in> set (snd (snd (updateMeeting w c j ?ud)))"
    unfolding disp by (simp add: finish_simps)
  from updateMeeting_ops [OF m] have j: "j = i" by simp
  have "\<exists>fetched effs1 effs2. events_get w False i = Inr fetched
      \<and> applyUpdate ?ud fetched = Some p
      \<and> list_all is_refresh effs2
      \<and> snd (snd (updateMeeting w c i ?ud))
          = effs1 @ [EventsGet False i] @ effs2 @ [EventsUpdate i p]"
  proof (cases rule: updateMeeting_cases [of w c i ?ud])
    case (denied msg effs)
    with m j refresh_not_provider [OF denied(2), of "EventsUpdate i p"] show ?thesis by simp
  next
    case (fetch_failed c1 effs1 msg)
    with m j refresh_not_provider [OF fetch_failed(2), of "EventsUpdate i p"]
    show ?thesis by simp
  next
    case (type_error c1 effs1 fetched)
    with m j refresh_not_provider [OF type_error(2), of "EventsUpdate i p"]
    show ?thesis by simp
  next
    case (denied2 c1 effs1 fetched ev' msg effs2)
    with m j refresh_not_provider [OF denied2(2), of "EventsUpdate i p"]
      refresh_not_provider [OF denied2(6), of "EventsUpdate i p"]
    show ?thesis by auto
  next
    case (written c1 effs1 fetched ev' c2 effs2)
    with m j refresh_not_provider [OF written(2), of "EventsUpdate i p"]
      refresh_not_provider [OF written(6), of "EventsUpdate i p"]
    have "ev' = p" by auto
    with written show ?thesis by auto
  qed
  then obtain fetched effs1 effs2 where f: "events_get w False i = Inr fetched"
    and a: "applyUpdate ?ud fetched = Some p"
    and r2: "list_all is_refresh effs2"
    and u: "snd (snd (updateMeeting w c i ?ud))
          = effs1 @ [EventsGet False i] @ effs2 @ [EventsUpdate i p]" by blast
  from a have ok: "\<not> (args_of req ''start_time'' \<noteq> None \<and> ev_start fetched = None)"
      "\<not> (args_of req ''end_time'' \<noteq> None \<and> ev_end fetched = None)"
      "\<not> attendees_no_array (args_of req)"
    and p: "p = replace_provided (args_of req) fetched"
    by (simp_all add: applyUpdate_args split: if_splits)
  have effs: "snd (snd (handleCallTool w s req)) =
      ((if calendar s = None then snd (initialize w) else []) @ effs1)
        @ [EventsGet False i] @ effs2 @ [EventsUpdate i p]"
    unfolding handleCallTool_session [OF c] disp j by (simp add: finish_simps u)
  have omitted: "(args_of req ''summary'' = None \<longrightarrow> ev_summary p = ev_summary fetched)"
    "(args_of req ''description'' = None \<longrightarrow> ev_description p = ev_description fetched)"
    "(args_of req ''start_time'' = None \<longrightarrow> ev_start p = ev_start fetched)"
    "(args_of req ''end_time'' = None \<longrightarrow> ev_end p = ev_end fetched)"
    "(args_of req ''attendees'' = None \<longrightarrow> ev_attendees p = ev_attendees fetched)"
    unfolding p by (simp_all add: replace_provided_def)
  have provided: "(\<forall>v. args_of req ''summary'' = Some v \<longrightarrow> ev_summary p = Some v)"
    "(\<forall>v. args_of req ''description'' = Some v \<longrightarrow> ev_description p = Some v)"
    "(args_of req ''description'' = Some (JStr []) \<longrightarrow> ev_description p = Some (JStr []))"
    unfolding p by (simp_all add: replace_provided_def)
  have times: "(\<forall>v. args_of req ''start_time'' = Some v \<longrightarrow>
              (\<exists>t. ev_start fetched = Some t \<and> ev_start p = Some (t\<lparr>dateTime := Some v\<rparr>)))"
    "(\<forall>v. args_of req ''end_time'' = Some v \<longrightarrow>
              (\<exists>t. ev_end fetched = Some t \<and> ev_end p = Some (t\<lparr>dateTime := Some v\<rparr>)))"
    unfolding p using ok(1,2) by (auto simp: replace_provided_def)
  have att: "(\<forall>v. args_of req ''attendees'' = Some v \<longrightarrow>
              (\<exists>emails. v = JArr emails
                 \<and> ev_attendees p =
                     Some (map (\<lambda>e. \<lparr>ea_email = Some e, ea_responseStatus = None\<rparr>) emails)))"
    unfolding p using ok(3)
    by (cases rule: attendees_cases [of "args_of req"]) (simp_all add: replace_provided_def)
  have frame: "ev_id p = ev_id fetched" "ev_conferenceData p = ev_conferenceData fetched"
    "ev_creator p = ev_creator fetched" "ev_organizer p = ev_organizer fetched"
    "ev_created p = ev_created fetched" "ev_updated p = ev_updated fetched"
    "ev_other p = ev_other fetched"
    unfolding p by (simp_all add: replace_provided_def)
  from j mj have mi: "args_of req ''meeting_id'' = Some i" by simp
  from f mi effs r2 p omitted provided times att frame
  show "\<exists>fetched pre mid.
          events_get w False i = Inr fetched
        \<and> args_of req ''meeting_id'' = Some i
        \<and> snd (snd (handleCallTool w s req))
            = pre @ [EventsGet False i] @ mid @ [EventsUpdate i p]
        \<and> list_all is_refresh mid
        \<and> p = replace_provided (args_of req) fetched
        \<and> (args_of req ''summary'' = None \<longrightarrow> ev_summary p = ev_summary fetched)
        \<and> (args_of req ''description'' = None \<longrightarrow> ev_description p = ev_description fetched)
        \<and> (args_of req ''start_time'' = None \<longrightarrow> ev_start p = ev_start fetched)
        \<and> (args_of req ''end_time'' = None \<longrightarrow> ev_end p = ev_end fetched)
        \<and> (args_of req ''attendees'' = None \<longrightarrow> ev_attendees p = ev_attendees fetched)
        \<and> (\<forall>v. args_of req ''summary'' = Some v \<longrightarrow> ev_summary p = Some v)
        \<and> (\<forall>v. args_of req ''description'' = Some v \<longrightarrow> ev_description p = Some v)
        \<and> (args_of req ''description'' = Some (JStr []) \<longrightarrow> ev_description p = Some (JStr []))
        \<and> (\<forall>v. args_of req ''start_time'' = Some v \<longrightarrow>
              (\<exists>t. ev_start fetched = Some t \<and> ev_start p = Some (t\<lparr>dateTime := Some v\<rparr>)))
        \<and> (\<forall>v. args_of req ''end_time'' = Some v \<longrightarrow>
              (\<exists>t. ev_end fetched = Some t \<and> ev_end p = Some (t\<lparr>dateTime := Some v\<rparr>)))
        \<and> (\<forall>v. args_of req ''attendees'' = Some v \<longrightarrow>
              (\<exists>emails. v = JArr emails
                 \<and> ev_attendees p =
                     Some (map (\<lambda>e. \<lparr>ea_email = Some e, ea_responseStatus = None\<rparr>) emails)))
        \<and> ev_id p = ev_id fetched \<and> ev_conferenceData p = ev_conferenceData fetched
        \<and> ev_creator p = ev_creator fetched \<and> ev_organizer p = ev_organizer fetched
        \<and> ev_created p = ev_created fetched \<and> ev_updated p = ev_updated fetched
        \<and> ev_other p = ev_other fetched"
    by (intro exI [of _ fetched]
        exI [of _ "(if calendar s = None then snd (initialize w) else []) @ effs1"]
        exI [of _ effs2] conjI)
next
  assume h: "session_client w s = Some c
        \<and> truthy_opt (access_token (client_credentials c))
        \<and> \<not> isTokenExpiring (client_credentials c) (now_request w)
        \<and> name req = ''update_meeting''
        \<and> args_of req ''meeting_id'' = Some i \<and> truthy i
        \<and> \<not> list_all (\<lambda>k. args_of req k = None) updatable_fields
        \<and> events_get w False i = Inr fetched
        \<and> (args_of req ''start_time'' \<noteq> None \<longrightarrow> ev_start fetched \<noteq> None)
        \<and> (args_of req ''end_time'' \<noteq> None \<longrightarrow> ev_end fetched \<noteq> None)
        \<and> (\<forall>v. args_of req ''attendees'' = Some v \<longrightarrow> (\<exists>emails. v = JArr emails))"
  let ?ud = "\<lparr>ud_summary = args_of req ''summary'',
              ud_description = args_of req ''description'',
              ud_startTime = args_of req ''start_time'',
              ud_endTime = args_of req ''end_time'',
              ud_attendees = args_of req ''attendees''\<rparr>"
  from h have c: "session_client w s = Some c" by blast
  from h have md: "getRequestMetadata w c = (Inr c, [])" by (intro metadata_ready) blast+
  from h have f: "events_get w False i = Inr fetched" by blast
  from h have i: "args_of req ''meeting_id'' = Some i" "truthy i" by blast+
  from h have na: "\<not> attendees_no_array (args_of req)"
    by (cases rule: attendees_cases [of "args_of req"]) (auto simp: formatAttendees_def)
  from h na have "\<not> ((args_of req ''start_time'' \<noteq> None \<and> ev_start fetched = None)
         \<or> (args_of req ''end_time'' \<noteq> None \<and> ev_end fetched = None)
         \<or> attendees_no_array (args_of req))" by blast
  then have a: "applyUpdate ?ud fetched = Some (replace_provided (args_of req) fetched)"
    by (simp only: applyUpdate_args if_False)
  from h have some: "\<not> (args_of req ''summary'' = None \<and> args_of req ''description'' = None
                     \<and> args_of req ''start_time'' = None \<and> args_of req ''end_time'' = None
                     \<and> args_of req ''attendees'' = None)"
    by (simp add: updatable_fields_def)
  from h have n: "name req = ''update_meeting''" by blast
  show "EventsUpdate i (replace_provided (args_of req) fetched)
            \<in> set (snd (snd (handleCallTool w s req)))"
    unfolding handleCallTool_session [OF c] n dispatch_update [OF i some]
    by (simp add: finish_simps updateMeeting_ready_effects [OF md f a])
qed

text \<open>
  Updating the sample event with an explicit empty description and one new attendee
  writes the event back with the description cleared, the attendees replaced by the new
  one, and the summary and the start as fetched.
\<close>

theorem update_meeting_replaces_provided_fields_witness:
  "EventsUpdate (JStr ''evt1'')
      (video_event\<lparr>ev_description := Some (JStr []),
                   ev_attendees :=
                     Some [\<lparr>ea_email = Some (JStr ''c@x.com''), ea_responseStatus = None\<rparr>]\<rparr>)
     \<in> set (snd (snd (handleCallTool sample_env ready_server
                        \<lparr>name = ''update_meeting'',
                         arguments = Some [''meeting_id'' \<mapsto> JStr ''evt1'',
                                           ''description'' \<mapsto> JStr [],
                                           ''attendees'' \<mapsto> JArr [JStr ''c@x.com'']]\<rparr>)))
   \<and> (\<exists>pre mid.
         snd (snd (handleCallTool sample_env ready_server
                        \<lparr>name = ''update_meeting'',
                         arguments = Some [''meeting_id'' \<mapsto> JStr ''evt1'',
                                           ''description'' \<mapsto> JStr [],
                                           ''attendees'' \<mapsto> JArr [JStr ''c@x.com'']]\<rparr>))
           = pre @ [EventsGet False (JStr ''evt1'')] @ mid
               @ [EventsUpdate (JStr ''evt1'')
                    (video_event\<lparr>ev_description := Some (JStr []),
                       ev_attendees :=
                         Some [\<lparr>ea_email = Some (JStr ''c@x.com''),
                                ea_responseStatus = None\<rparr>]\<rparr>)])
   \<and> ev_summary video_event = None \<and> ev_description video_event = Some (JStr ''weekly'')"
proof -
  let ?a = "[''meeting_id'' \<mapsto> JStr ''evt1'', ''description'' \<mapsto> JStr [],
             ''attendees'' \<mapsto> JArr [JStr ''c@x.com'']]"
  let ?req = "\<lparr>name = ''update_meeting'', arguments = Some ?a\<rparr>"
  let ?p = "video_event\<lparr>ev_description := Some (JStr []),
                   ev_attendees :=
                     Some [\<lparr>ea_email = Some (JStr ''c@x.com''), ea_responseStatus = None\<rparr>]\<rparr>"
  have a: "args_of ?req ''meeting_id'' = Some (JStr ''evt1'')"
    "args_of ?req ''description'' = Some (JStr [])"
    "args_of ?req ''summary'' = None" "args_of ?req ''start_time'' = None"
    "args_of ?req ''end_time'' = None"
    "args_of ?req ''attendees'' = Some (JArr [JStr ''c@x.com''])"
    by (simp_all add: args_of_def)
  have rp: "replace_provided (args_of ?req) video_event = ?p"
    by (simp add: replace_provided_def a video_event_def empty_event_def)
  have tk: "truthy_opt (access_token (client_credentials sample_client))"
    "\<not> isTokenExpiring (client_credentials sample_client) (now_request sample_env)"
    by (simp_all add: client_credentials_def sample_client_def sample_token_def
        isTokenExpiring_def eagerRefreshThresholdMillis_def sample_env_def)
  have g: "events_get sample_env False (JStr ''evt1'') = Inr video_event"
    by (simp add: sample_env_def)
  have na: "\<not> list_all (\<lambda>k. args_of ?req k = None) updatable_fields"
    by (simp add: updatable_fields_def a)
  note inst = update_meeting_replaces_provided_fields
    [where w = sample_env and s = ready_server and req = ?req and i = "JStr ''evt1''"
       and fetched = video_event and p = ?p and c = sample_client]
  have m: "EventsUpdate (JStr ''evt1'') ?p
     \<in> set (snd (snd (handleCallTool sample_env ready_server ?req)))"
    using conjunct2 [OF inst] session_ready [of sample_env] tk g na a unfolding rp by simp
  from conjunct1 [OF inst] m
  have "\<exists>pre mid. snd (snd (handleCallTool sample_env ready_server ?req))
           = pre @ [EventsGet False (JStr ''evt1'')] @ mid @ [EventsUpdate (JStr ''evt1'') ?p]"
    by blast
  moreover have "ev_summary video_event = None"
    "ev_description video_event = Some (JStr ''weekly'')"
    by (simp_all add: video_event_def empty_event_def)
  ultimately show ?thesis using m by blast
qed

section \<open>Protocol errors and execution errors\<close>




section \<open>Update without a field\<close>

text \<open>
  C5, as the code has it. An \<^verbatim>\<open>update_meeting\<close> call whose arguments have none of
  summary, description, start_time, end_time, attendees performs no provider operation
  (no fetch, no update). When the call has a session it throws \<^verbatim>\<open>InvalidParams\<close>;
  when \<^verbatim>\<open>initialize\<close> fails it returns the error-flagged envelope of the failed
  initialisation instead.
\<close>

theorem update_without_fields_invalid_params:
  assumes "name req = ''update_meeting''"
    and "args_of req ''summary'' = None" and "args_of req ''description'' = None"
    and "args_of req ''start_time'' = None" and "args_of req ''end_time'' = None"
    and "args_of req ''attendees'' = None"
  shows "list_all (\<lambda>e. \<not> is_provider_op e) (snd (snd (handleCallTool w s req)))
     \<and> (session_available w s \<longrightarrow>
          fst (handleCallTool w s req) =
            Thrown InvalidParams
              (if truthy_opt (args_of req ''meeting_id'')
               then ''At least one field to update must be provided''
               else ''meeting_id is required''))
     \<and> (\<not> session_available w s \<longrightarrow>
          (\<exists>msg. fst (handleCallTool w s req) = Returned (Text msg) True))"
proof -
  have d: "dispatch w c (name req) (args_of req) =
      (Thrown InvalidParams
              (if truthy_opt (args_of req ''meeting_id'')
               then ''At least one field to update must be provided''
               else ''meeting_id is required''), c, [])" for c
  proof (cases "truthy_opt (args_of req ''meeting_id'')")
    case False
    then show ?thesis unfolding assms(1) by (simp add: dispatch_no_id)
  next
    case True
    then obtain i where i: "args_of req ''meeting_id'' = Some i" "truthy i"
      by (cases "args_of req ''meeting_id''") simp_all
    from dispatch_update_no_field [OF i assms(2-6)] True show ?thesis
      unfolding assms(1) by simp
  qed
  from thrown_call [of w req, OF d] show ?thesis by blast
qed

text \<open>With a session, an update that names the meeting only is thrown and changes nothing.\<close>

theorem update_without_fields_invalid_params_witness:
  "handleCallTool sample_env ready_server
      \<lparr>name = ''update_meeting'', arguments = Some [''meeting_id'' \<mapsto> JStr ''evt1'']\<rparr>
     = (Thrown InvalidParams ''At least one field to update must be provided'',
        ready_server, [])"
proof -
  let ?req = "\<lparr>name = ''update_meeting'', arguments = Some [''meeting_id'' \<mapsto> JStr ''evt1'']\<rparr>"
  have a: "name ?req = ''update_meeting''" "args_of ?req ''summary'' = None"
    "args_of ?req ''description'' = None" "args_of ?req ''start_time'' = None"
    "args_of ?req ''end_time'' = None" "args_of ?req ''attendees'' = None"
    by (simp_all add: args_of_def)
  have m: "truthy_opt (args_of ?req ''meeting_id'')" by (simp add: args_of_def)
  have i: "args_of ?req ''meeting_id'' = Some (JStr ''evt1'')" "truthy (JStr ''evt1'')"
    by (simp_all add: args_of_def)
  have d: "dispatch sample_env sample_client ''update_meeting'' (args_of ?req)
      = (Thrown InvalidParams ''At least one field to update must be provided'',
         sample_client, [])"
    by (rule dispatch_update_no_field [OF i a(2-6)])
  have st: "fst (snd (handleCallTool sample_env ready_server ?req)) = ready_server"
    unfolding handleCallTool_session [OF session_ready] a(1) d by (simp add: ready_server_def)
  have ef: "snd (snd (handleCallTool sample_env ready_server ?req)) = []"
    unfolding handleCallTool_session [OF session_ready] a(1) d by (simp add: ready_calendar)
  from update_without_fields_invalid_params [OF a, of sample_env ready_server]
    session_available_ready [of sample_env] m
  have "fst (handleCallTool sample_env ready_server ?req)
      = Thrown InvalidParams ''At least one field to update must be provided''"
    by simp
  with st ef show ?thesis
    by (metis prod.collapse)
qed

text \<open>
  Without a token file the same update is not thrown: the call returns the error-flagged
  envelope of the failed initialisation.
\<close>

theorem update_without_fields_no_session_counterexample:
  "handleCallTool (sample_env\<lparr>token_file := None\<rparr>) fresh_server
      \<lparr>name = ''update_meeting'', arguments = Some [''meeting_id'' \<mapsto> JStr ''evt1'']\<rparr>
     = (Returned (Text ''Error initializing Google Meet API: No valid credentials. Please run the setup script first to authorize access.'') True,
        fresh_server, [ReadCredentials, ReadToken])"
  by (simp add: handleCallTool_def fresh_server_def init_no_token no_valid_credentials_def)

section \<open>Required parameters of \<^verbatim>\<open>create_meeting\<close>\<close>

text \<open>
  C10, as the code has it. A \<^verbatim>\<open>create_meeting\<close> call in which summary, start_time or
  end_time is the empty string behaves exactly as the call without that key: presence of
  a required field is decided by truthiness. The field is among the missing ones and no
  provider operation is performed. When the call has a session it throws
  \<^verbatim>\<open>InvalidParams\<close> with the message that lists the missing fields; when
  \<^verbatim>\<open>initialize\<close> fails it returns the error-flagged envelope of the failed
  initialisation instead.
\<close>

theorem create_empty_string_is_missing:
  assumes "name req = ''create_meeting''"
    and "k = ''summary'' \<or> k = ''start_time'' \<or> k = ''end_time''"
    and "arguments req = Some a" and "a k = Some (JStr [])"
  shows "handleCallTool w s req = handleCallTool w s (req\<lparr>arguments := Some (a(k := None))\<rparr>)
     \<and> list_all (\<lambda>e. \<not> is_provider_op e) (snd (snd (handleCallTool w s req)))
     \<and> k \<in> set (missing_required (a ''summary'') (a ''start_time'') (a ''end_time''))
     \<and> (session_available w s \<longrightarrow>
          fst (handleCallTool w s req) =
            Thrown InvalidParams
              (''Missing required parameters: ''
                 @ join_with '', ''
                     (missing_required (a ''summary'') (a ''start_time'') (a ''end_time''))))
     \<and> (\<not> session_available w s \<longrightarrow>
          (\<exists>msg. fst (handleCallTool w s req) = Returned (Text msg) True))"
proof -
  have nt: "\<not> truthy_opt (a k)" using assms(4) by simp
  have ar: "args_of req = a" using assms(3) by (simp add: args_of_def)
  have ar': "args_of (req\<lparr>arguments := Some (a(k := None))\<rparr>) = a(k := None)"
    by (simp add: args_of_def)
  have nt': "\<not> truthy_opt ((a(k := None)) k)" by simp
  have f: "\<not> truthy_opt (a ''summary'') \<or> \<not> truthy_opt (a ''start_time'')
     \<or> \<not> truthy_opt (a ''end_time'')" using assms(2) nt by blast
  have f': "\<not> truthy_opt ((a(k := None)) ''summary'') \<or> \<not> truthy_opt ((a(k := None)) ''start_time'')
     \<or> \<not> truthy_opt ((a(k := None)) ''end_time'')" using assms(2) nt' by blast
  have d: "dispatch w c (name req) (args_of req) =
     (Thrown InvalidParams
        (''Missing required parameters: ''
           @ join_with '', ''
               (missing_required (a ''summary'') (a ''start_time'') (a ''end_time''))),
      c, [])" for c
    unfolding ar assms(1) by (rule dispatch_create_missing [OF f])
  have d': "dispatch w c (name req) (args_of (req\<lparr>arguments := Some (a(k := None))\<rparr>))
      = dispatch w c (name req) (args_of req)" for c
    unfolding d unfolding assms(1) ar'
    by (simp only: dispatch_create_missing [OF f'] missing_required_omit [of k a, OF assms(2) nt])
  have nm: "name (req\<lparr>arguments := Some (a(k := None))\<rparr>) = name req" by simp
  have same: "handleCallTool w s req = handleCallTool w s (req\<lparr>arguments := Some (a(k := None))\<rparr>)"
    by (rule same_dispatch_same_call [OF nm d', symmetric])
  from same thrown_call [of w req, OF d] missing_required_mem [of k a, OF assms(2) nt]
  show ?thesis by blast
qed

text \<open>An empty start_time is reported as missing, as the call without start_time is.\<close>

theorem create_empty_string_is_missing_witness:
  "handleCallTool sample_env ready_server
      \<lparr>name = ''create_meeting'',
       arguments = Some [''summary'' \<mapsto> JStr ''Standup'', ''start_time'' \<mapsto> JStr [],
                         ''end_time'' \<mapsto> JStr ''2025-01-10T09:30:00Z'']\<rparr>
     = handleCallTool sample_env ready_server
         \<lparr>name = ''create_meeting'',
          arguments = Some ([''summary'' \<mapsto> JStr ''Standup'', ''start_time'' \<mapsto> JStr [],
                             ''end_time'' \<mapsto> JStr ''2025-01-10T09:30:00Z'']
                              (''start_time'' := None))\<rparr>
   \<and> fst (handleCallTool sample_env ready_server
      \<lparr>name = ''create_meeting'',
       arguments = Some [''summary'' \<mapsto> JStr ''Standup'', ''start_time'' \<mapsto> JStr [],
                         ''end_time'' \<mapsto> JStr ''2025-01-10T09:30:00Z'']\<rparr>)
     = Thrown InvalidParams ''Missing required parameters: start_time''"
proof -
  let ?a = "[''summary'' \<mapsto> JStr ''Standup'', ''start_time'' \<mapsto> JStr [],
                         ''end_time'' \<mapsto> JStr ''2025-01-10T09:30:00Z'']"
  let ?req = "\<lparr>name = ''create_meeting'', arguments = Some ?a\<rparr>"
  have h: "name ?req = ''create_meeting''"
    "''start_time'' = ''summary'' \<or> ''start_time'' = ''start_time'' \<or> ''start_time'' = ''end_time''"
    "arguments ?req = Some ?a" "?a ''start_time'' = Some (JStr [])"
    by simp_all
  have mr: "''Missing required parameters: ''
       @ join_with '', '' (missing_required (?a ''summary'') (?a ''start_time'') (?a ''end_time''))
      = ''Missing required parameters: start_time''"
    by (simp add: missing_required_def)
  note inst = create_empty_string_is_missing [OF h, of sample_env ready_server]
  have c: "handleCallTool sample_env ready_server ?req
      = handleCallTool sample_env ready_server (?req\<lparr>arguments := Some (?a(''start_time'' := None))\<rparr>)"
    using inst by blast
  have t: "fst (handleCallTool sample_env ready_server ?req)
      = Thrown InvalidParams ''Missing required parameters: start_time''"
    using inst session_available_ready [of sample_env] unfolding mr by blast
  have u: "?req\<lparr>arguments := Some (?a(''start_time'' := None))\<rparr>
      = \<lparr>name = ''create_meeting'', arguments = Some (?a(''start_time'' := None))\<rparr>"
    by simp
  show ?thesis using c t unfolding u by (rule conjI)
qed

text \<open>
  Without a token file, a call with an empty summary is not thrown: it returns the
  error-flagged envelope of the failed initialisation.
\<close>

theorem create_empty_summary_no_session_counterexample:
  "handleCallTool (sample_env\<lparr>token_file := None\<rparr>) fresh_server
      \<lparr>name = ''create_meeting'',
       arguments = Some [''summary'' \<mapsto> JStr [],
                         ''start_time'' \<mapsto> JStr ''2025-01-10T09:00:00Z'',
                         ''end_time'' \<mapsto> JStr ''2025-01-10T09:30:00Z'']\<rparr>
     = (Returned (Text ''Error initializing Google Meet API: No valid credentials. Please run the setup script first to authorize access.'') True,
        fresh_server, [ReadCredentials, ReadToken])"
  by (simp add: handleCallTool_def fresh_server_def init_no_token no_valid_credentials_def)

section \<open>The session\<close>

text \<open>
  C6, as the code has it. Take an initialisation that loads the token. When the token's
  \<^verbatim>\<open>expiry_date\<close> is non-zero and before the clock, \<^verbatim>\<open>initialize\<close> makes exactly one
  refresh call and then fails, whatever the token endpoint answers: it reads the
  property \<^verbatim>\<open>credentials\<close> of an answer that has none, so \<^verbatim>\<open>fs.writeFile\<close> is given
  \<^verbatim>\<open>undefined\<close> and rejects it. No token file is written, the client stays
  uninitialised, the call that triggered the initialisation returns the error-flagged
  envelope "No valid credentials", and no handler runs. When the \<^verbatim>\<open>expiry_date\<close> is
  absent, zero or not in the past, \<^verbatim>\<open>initialize\<close> makes no refresh call, writes no
  token file and succeeds with the loaded token.
\<close>

theorem initialize_expired_token_never_succeeds:
  assumes "token_file w = Some tok" and "ReadToken \<in> set (snd (initialize w))"
  shows "(needs_refresh tok (now_initialize w) \<longrightarrow>
            initialize w =
              (Inl no_valid_credentials,
               [ReadCredentials, ReadToken, RefreshToken (refresh_token tok)])
            \<and> (calendar s = None \<longrightarrow>
                 handleCallTool w s req =
                   (Returned (Text (''Error initializing Google Meet API: ''
                                      @ no_valid_credentials)) True,
                    s, [ReadCredentials, ReadToken, RefreshToken (refresh_token tok)])))
       \<and> (\<not> needs_refresh tok (now_initialize w) \<longrightarrow>
            snd (initialize w) = [ReadCredentials, ReadToken]
            \<and> (\<exists>client. fst (initialize w) = Inr client \<and> oc_credentials client = Some tok))
       \<and> list_all (\<lambda>e. \<not> is_token_write e) (snd (initialize w))
       \<and> (needs_refresh tok (now_initialize w) \<longleftrightarrow>
            (\<exists>e. expiry_date tok = Some e \<and> e \<noteq> 0 \<and> e < now_initialize w))"
proof (intro conjI impI)
  assume n: "needs_refresh tok (now_initialize w)"
  from initialize_loaded(1) [OF assms(2,1) n]
  show i: "initialize w =
              (Inl no_valid_credentials,
               [ReadCredentials, ReadToken, RefreshToken (refresh_token tok)])" .
  assume "calendar s = None"
  then show "handleCallTool w s req =
                   (Returned (Text (''Error initializing Google Meet API: ''
                                      @ no_valid_credentials)) True,
                    s, [ReadCredentials, ReadToken, RefreshToken (refresh_token tok)])"
    by (simp add: handleCallTool_def i)
next
  assume n: "\<not> needs_refresh tok (now_initialize w)"
  from initialize_loaded(2) [OF assms(2,1) n]
  show "snd (initialize w) = [ReadCredentials, ReadToken]"
    and "\<exists>client. fst (initialize w) = Inr client \<and> oc_credentials client = Some tok"
    by blast+
next
  show "list_all (\<lambda>e. \<not> is_token_write e) (snd (initialize w))"
    by (rule initialize_no_write)
next
  show "needs_refresh tok (now_initialize w) \<longleftrightarrow>
            (\<exists>e. expiry_date tok = Some e \<and> e \<noteq> 0 \<and> e < now_initialize w)"
    by (auto simp: needs_refresh_def split: option.splits)
qed

text \<open>
  The sample token expires at 2000000 and the token endpoint answers a refresh with a
  fresh token. A first call made when the clock reads 5000000 makes the refresh call
  and fails; a first call made when the clock reads 1000 makes none.
\<close>

theorem initialize_expired_token_never_succeeds_witness:
  "token_endpoint (sample_env\<lparr>now_initialize := 5000000\<rparr>) (JStr ''rt0'')
     = Inr \<lparr>tokens = fresh_token\<rparr>
   \<and> handleCallTool (sample_env\<lparr>now_initialize := 5000000\<rparr>) fresh_server
        \<lparr>name = ''list_meetings'', arguments = None\<rparr>
      = (Returned (Text ''Error initializing Google Meet API: No valid credentials. Please run the setup script first to authorize access.'') True,
         fresh_server,
         [ReadCredentials, ReadToken, RefreshToken (Some (JStr ''rt0''))])
   \<and> snd (initialize sample_env) = [ReadCredentials, ReadToken]"
proof -
  let ?w = "sample_env\<lparr>now_initialize := 5000000\<rparr>"
  let ?req = "\<lparr>name = ''list_meetings'', arguments = None\<rparr>"
  have t: "token_file ?w = Some sample_token" "token_file sample_env = Some sample_token"
    by (simp_all add: sample_env_def)
  have r: "ReadToken \<in> set (snd (initialize ?w))" "ReadToken \<in> set (snd (initialize sample_env))"
    by (simp_all add: initialize_def sample_env_def sample_credentials_def Let_def
        split: sum.splits)
  have n: "needs_refresh sample_token (now_initialize ?w)"
    "\<not> needs_refresh sample_token (now_initialize sample_env)"
    by (simp_all add: needs_refresh_def sample_token_def sample_env_def)
  have c: "calendar fresh_server = None" by (simp add: fresh_server_def)
  have e: "token_endpoint ?w (JStr ''rt0'') = Inr \<lparr>tokens = fresh_token\<rparr>"
    by (simp add: sample_env_def)
  from initialize_expired_token_never_succeeds [OF t(1) r(1), of fresh_server ?req] n(1) c
  have a: "handleCallTool ?w fresh_server ?req =
      (Returned (Text (''Error initializing Google Meet API: '' @ no_valid_credentials)) True,
       fresh_server, [ReadCredentials, ReadToken, RefreshToken (refresh_token sample_token)])"
    by blast
  from initialize_expired_token_never_succeeds [OF t(2) r(2), of fresh_server ?req] n(2)
  have b: "snd (initialize sample_env) = [ReadCredentials, ReadToken]" by blast
  from a have "handleCallTool ?w fresh_server ?req =
      (Returned (Text ''Error initializing Google Meet API: No valid credentials. Please run the setup script first to authorize access.'') True,
         fresh_server,
         [ReadCredentials, ReadToken, RefreshToken (Some (JStr ''rt0''))])"
    by (simp add: no_valid_credentials_def sample_token_def)
  with e b show ?thesis by blast
qed



end
